theory Spec2Isabelle
  imports Main
begin

section \<open>JavaScript numbers\<close>

text \<open>
  Row indices, offsets and limits are JavaScript numbers, that is, doubles. The client
  only ever adds, subtracts and compares integers, but \<^verbatim>\<open>Math.min()\<close> and
  \<^verbatim>\<open>Math.max()\<close> of no arguments are \<open>+Infinity\<close> and \<open>-Infinity\<close>, and arithmetic
  on those can give \<open>NaN\<close>. A number is therefore an integer or one of the three
  special values.
\<close>

datatype jsnum = NaN | NegInf | Fin int | PosInf

text \<open>
  \<^verbatim>\<open>a + b\<close> and \<^verbatim>\<open>a - b\<close> on these values, without rounding: what the doubles
  compute as long as the operands and the result are safe integers (of magnitude at most
  \<open>2^53 - 1\<close>).
\<close>

fun js_add :: "jsnum \<Rightarrow> jsnum \<Rightarrow> jsnum" where
  "js_add NaN _ = NaN"
| "js_add _ NaN = NaN"
| "js_add PosInf NegInf = NaN"
| "js_add NegInf PosInf = NaN"
| "js_add PosInf _ = PosInf"
| "js_add _ PosInf = PosInf"
| "js_add NegInf _ = NegInf"
| "js_add _ NegInf = NegInf"
| "js_add (Fin a) (Fin b) = Fin (a + b)"

fun js_neg :: "jsnum \<Rightarrow> jsnum" where
  "js_neg NaN = NaN"
| "js_neg NegInf = PosInf"
| "js_neg PosInf = NegInf"
| "js_neg (Fin a) = Fin (- a)"

definition js_sub :: "jsnum \<Rightarrow> jsnum \<Rightarrow> jsnum" where
  "js_sub a b = js_add a (js_neg b)"

text \<open>
  The doubles' rounding of an integer. A double has 53 significant bits: up to \<open>2^53\<close>
  every integer is a double, and from there on the doubles are the multiples of a power
  of two that doubles with every binade (\<open>ulp\<close>). An integer is rounded to the nearest
  double, a tie to the one with the even significand, and a result of magnitude
  \<open>2^1024\<close> or more is an infinity.
\<close>

function ulp :: "nat \<Rightarrow> nat" where
  "ulp n = (if n < 2 ^ 53 then 1 else 2 * ulp (n div 2))"
  by pat_completeness auto
termination
  by (relation "measure (\<lambda>n. n)") auto

declare ulp.simps [simp del]

definition round_half_even :: "nat \<Rightarrow> nat" where
  "round_half_even n =
     (let u = ulp n; q = n div u; r = n mod u
      in if 2 * r < u then q * u
         else if u < 2 * r then (q + 1) * u
         else if even q then q * u else (q + 1) * u)"

definition to_double :: "int \<Rightarrow> jsnum" where
  "to_double x =
     (let m = round_half_even (nat \<bar>x\<bar>)
      in if 2 ^ 1024 \<le> m then (if x < 0 then NegInf else PosInf)
         else Fin (if x < 0 then - int m else int m))"

text \<open>\<^verbatim>\<open>Number.isSafeInteger\<close> on an integer.\<close>

definition safe_int :: "int \<Rightarrow> bool" where
  "safe_int x = (\<bar>x\<bar> \<le> 9007199254740991)"

text \<open>
  \<^verbatim>\<open>a + b\<close> and \<^verbatim>\<open>a - b\<close> with the rounding: the window of the highlight page and the
  request of the slice client are computed with these. (The table component adds and
  subtracts positions in a rendered slice; there the model keeps the arithmetic
  without rounding.)
\<close>

fun double_add :: "jsnum \<Rightarrow> jsnum \<Rightarrow> jsnum" where
  "double_add (Fin a) (Fin b) = to_double (a + b)"
| "double_add x y = js_add x y"

definition double_sub :: "jsnum \<Rightarrow> jsnum \<Rightarrow> jsnum" where
  "double_sub a b = double_add a (js_neg b)"

text \<open>
  \<^verbatim>\<open>Math.max(...xs)\<close> and \<^verbatim>\<open>Math.min(...xs)\<close>: the result starts at \<open>-Infinity\<close>
  (\<open>+Infinity\<close>), any \<open>NaN\<close> argument makes it \<open>NaN\<close>, otherwise it is the largest
  (smallest) argument. The engine's limit on the number of arguments that a spread call
  may pass is checked where the page makes the call (\<open>HighlightView_load\<close>).
\<close>

fun js_max2 :: "jsnum \<Rightarrow> jsnum \<Rightarrow> jsnum" where
  "js_max2 NaN _ = NaN"
| "js_max2 _ NaN = NaN"
| "js_max2 PosInf _ = PosInf"
| "js_max2 _ PosInf = PosInf"
| "js_max2 NegInf y = y"
| "js_max2 x NegInf = x"
| "js_max2 (Fin a) (Fin b) = Fin (max a b)"

fun js_min2 :: "jsnum \<Rightarrow> jsnum \<Rightarrow> jsnum" where
  "js_min2 NaN _ = NaN"
| "js_min2 _ NaN = NaN"
| "js_min2 NegInf _ = NegInf"
| "js_min2 _ NegInf = NegInf"
| "js_min2 PosInf y = y"
| "js_min2 x PosInf = x"
| "js_min2 (Fin a) (Fin b) = Fin (min a b)"

definition Math_max :: "jsnum list \<Rightarrow> jsnum" where
  "Math_max xs = foldl js_max2 NegInf xs"

definition Math_min :: "jsnum list \<Rightarrow> jsnum" where
  "Math_min xs = foldl js_min2 PosInf xs"

section \<open>The API client\<close>

text \<open>
  A rejected promise carries a JavaScript error object: its \<open>name\<close> and its
  \<open>message\<close>. \<^verbatim>\<open>throw new Error(text)\<close> is \<open>Exn ''Error'' text\<close>; a failed
  \<^verbatim>\<open>fetch\<close> is a \<open>TypeError\<close>.
\<close>

datatype exn = Exn (exn_name: string) (exn_message: string)

text \<open>
  \<^verbatim>\<open>String(e?.message || e)\<close>: the message when it is not empty, otherwise the error
  object converted to a string, which for an empty message is its name.
\<close>

definition error_text :: "exn \<Rightarrow> string" where
  "error_text e = (if exn_message e \<noteq> [] then exn_message e else exn_name e)"

text \<open>A row record maps column names to cell values; a value may be absent.\<close>

type_synonym row_record = "string \<rightharpoonup> string"

text \<open>
  The body of \<^verbatim>\<open>GET /tables/{id}/slice\<close> as the backend sends it. A row arrives either
  as the record itself or wrapped in a \<open>data\<close> field; \<open>rows\<close> may be missing. (The
  code tells the two apart by the field \<open>data\<close> alone, so a table with a column of
  that name is outside the model.)
\<close>

datatype raw_row = Wrapped row_record | Plain row_record

record slice_body =
  body_columns :: "string list"
  body_rows :: "raw_row list option"

text \<open>The query of a slice request: the table, \<open>offset\<close>, \<open>limit\<close> and the optional \<open>cols\<close>.\<close>

record slice_request =
  req_table :: string
  req_offset :: jsnum
  req_limit :: jsnum
  req_cols :: "string option"

text \<open>What \<^verbatim>\<open>getSlice\<close> resolves to: the body with its rows unwrapped, \<open>offset\<close> and \<open>limit\<close>.\<close>

record slice =
  slice_columns :: "string list"
  slice_rows :: "row_record list"
  slice_offset :: jsnum
  slice_limit :: jsnum

record table_meta =
  tm_table_id :: string
  tm_name :: string
  tm_row_count :: int
  tm_col_count :: int

text \<open>\<^verbatim>\<open>cols.join(",")\<close>.\<close>

fun join_comma :: "string list \<Rightarrow> string" where
  "join_comma [] = []"
| "join_comma [c] = c"
| "join_comma (c # cs) = c @ '','' @ join_comma cs"

text \<open>\<^verbatim>\<open>r.data ?? r\<close>.\<close>

fun unwrap_row :: "raw_row \<Rightarrow> row_record" where
  "unwrap_row (Wrapped r) = r"
| "unwrap_row (Plain r) = r"

text \<open>
  The request \<^verbatim>\<open>getSlice(tableId, rowFrom, rowTo, cols)\<close> sends: \<open>offset\<close> is
  \<^verbatim>\<open>Math.max(0, rowFrom)\<close>, \<open>limit\<close> is \<^verbatim>\<open>Math.max(1, rowTo - rowFrom)\<close>, and
  \<open>cols\<close> is set only for a non-empty column list.
\<close>

definition getSlice_request :: "string \<Rightarrow> jsnum \<Rightarrow> jsnum \<Rightarrow> string list option \<Rightarrow> slice_request" where
  "getSlice_request tableId rowFrom rowTo cols =
     (let offset = Math_max [Fin 0, rowFrom];
          limit = Math_max [Fin 1, double_sub rowTo rowFrom]
      in \<lparr> req_table = tableId, req_offset = offset, req_limit = limit,
           req_cols = (case cols of None \<Rightarrow> None
                       | Some cs \<Rightarrow> if cs \<noteq> [] then Some (join_comma cs) else None) \<rparr>)"

text \<open>
  \<^verbatim>\<open>getSlice\<close> against a backend \<open>fetch_slice\<close> that answers a request with a body or
  makes the call throw (a network failure, or a response that is not \<open>ok\<close>).
\<close>

definition getSlice ::
  "(slice_request \<Rightarrow> exn + slice_body) \<Rightarrow> string \<Rightarrow> jsnum \<Rightarrow> jsnum \<Rightarrow> string list option \<Rightarrow> exn + slice" where
  "getSlice fetch_slice tableId rowFrom rowTo cols =
     (let req = getSlice_request tableId rowFrom rowTo cols
      in case fetch_slice req of
           Inl e \<Rightarrow> Inl e
         | Inr data \<Rightarrow>
             Inr \<lparr> slice_columns = body_columns data,
                   slice_rows = map unwrap_row (case body_rows data of None \<Rightarrow> [] | Some rs \<Rightarrow> rs),
                   slice_offset = req_offset req,
                   slice_limit = req_limit req \<rparr>)"

section \<open>The table component\<close>

text \<open>
  The \<open>highlight\<close> property of \<^verbatim>\<open>DataTable\<close>: absolute row indices and column names.
\<close>

record highlight =
  hi_rows :: "int list"
  hi_cols :: "string list"

text \<open>
  What \<^verbatim>\<open>DataTable\<close> renders. A body row \<^verbatim>\<open><tr>\<close> has its key, its
  \<open>data-row-index\<close>, the index cell (marked \<open>hl\<close> when the row is highlighted, and
  showing the absolute index) and one cell per column; a cell \<^verbatim>\<open><td>\<close> has its key,
  its \<open>hl\<close> mark and its content.
\<close>

record td_cell =
  td_key :: string
  td_hl :: bool
  td_content :: string

record tr_row =
  tr_key :: nat
  tr_row_index :: jsnum
  tr_index_hl :: bool
  tr_index_label :: jsnum
  tr_cells :: "td_cell list"

record table_view =
  tv_head :: "string list"
  tv_body :: "tr_row list"

text \<open>
  \<^verbatim>\<open>DataTable({ columns, rows, highlight, rowOffset = 0 })\<close>. \<open>hlRows\<close> is the set of
  the highlight's rows minus \<open>rowOffset\<close>, \<open>hlCols\<close> the set of its columns; row \<open>i\<close> of
  the slice is highlighted when \<open>hlRows\<close> has \<open>i\<close>, and its cell of column \<open>c\<close> when,
  moreover, \<open>hlCols\<close> has \<open>c\<close>. An absent cell value shows as the empty string.
  Positions, offsets and cited rows are taken as safe integers here: \<open>r - rowOffset\<close>
  and \<open>i + rowOffset\<close> are computed without rounding.
\<close>

definition DataTable ::
  "string list \<Rightarrow> row_record list \<Rightarrow> highlight option \<Rightarrow> jsnum option \<Rightarrow> table_view" where
  "DataTable columns rows hl rowOffset_arg =
     (let rowOffset = (case rowOffset_arg of None \<Rightarrow> Fin 0 | Some n \<Rightarrow> n);
          hlRows = set (map (\<lambda>r. js_sub (Fin r) rowOffset)
                     (case hl of None \<Rightarrow> [] | Some h \<Rightarrow> hi_rows h));
          hlCols = set (case hl of None \<Rightarrow> [] | Some h \<Rightarrow> hi_cols h)
      in \<lparr> tv_head = columns,
           tv_body =
             map (\<lambda>(i, r).
                    let isRowHL = (Fin (int i) \<in> hlRows);
                        rowIndex = js_add (Fin (int i)) rowOffset
                    in \<lparr> tr_key = i,
                         tr_row_index = rowIndex,
                         tr_index_hl = isRowHL,
                         tr_index_label = js_add (Fin (int i)) rowOffset,
                         tr_cells =
                           map (\<lambda>c. \<lparr> td_key = c,
                                       td_hl = (isRowHL \<and> c \<in> hlCols),
                                       td_content = (case r c of None \<Rightarrow> [] | Some v \<Rightarrow> v) \<rparr>)
                             columns \<rparr>)
               (enumerate 0 rows) \<rparr>)"

section \<open>The backend and the calls made to it\<close>

text \<open>
  The body of \<^verbatim>\<open>GET /highlights/{id}\<close>: every field but the table id may be missing.
\<close>

record cite_range =
  range_rows :: "int list option"
  range_cols :: "string list option"

record evidence_entry =
  ev_range :: "cite_range option"

record highlight_payload =
  hl_table_id :: string
  hl_evidence :: "evidence_entry list option"
  hl_rows :: "int list option"
  hl_cols :: "string list option"

text \<open>The body of \<^verbatim>\<open>GET /jobs/{id}\<close> and of \<^verbatim>\<open>POST /upload\<close>.\<close>

record job =
  job_status :: string
  job_progress :: "int option"
  job_message :: "string option"
  job_table_id :: "string option"

record upload_response =
  up_job_id :: "string option"

text \<open>
  What a page runs against. The backend as the pages see it through the API client: each
  call resolves to a body or throws; the status of a job changes between polls, so
  \<^verbatim>\<open>getJob\<close> is answered by the number of the poll as well. And the JavaScript engine,
  for the one limit the pages can reach: a call that spreads an array throws a
  \<open>RangeError\<close> when the array has more elements than the engine passes as arguments.
  Every engine passes one argument, so the limit is \<open>engine_extra_args + 1\<close>; the
  error thrown is the engine's own.
\<close>

record backend =
  be_getHighlight :: "string \<Rightarrow> exn + highlight_payload"
  be_fetch_slice :: "slice_request \<Rightarrow> exn + slice_body"
  be_listTables :: "exn + table_meta list"
  be_uploadTable :: "string \<Rightarrow> string \<Rightarrow> exn + upload_response"
  be_getJob :: "string \<Rightarrow> nat \<Rightarrow> exn + job"
  engine_extra_args :: nat
  engine_range_error :: exn

text \<open>
  The calls a page makes, logged in the order it makes them; \<open>Sleep\<close> is the wait
  between two polls, in milliseconds.
\<close>

datatype api_call =
    CallGetHighlight string
  | CallGetSlice slice_request
  | CallListTables
  | CallUploadTable string string
  | CallGetJob string
  | Sleep nat

section \<open>The highlight page\<close>

text \<open>
  The window and the highlight that \<^verbatim>\<open>HighlightView\<close> computes from a payload, once
  the two spread calls \<^verbatim>\<open>Math.min(...rows)\<close> and \<^verbatim>\<open>Math.max(...rows)\<close> return. An
  array is truthy in JavaScript even when it is empty, so \<^verbatim>\<open>a || b\<close> falls through to
  \<open>b\<close> only when the field \<open>a\<close> is missing.
\<close>

record projection =
  pr_rows :: "int list"
  pr_cols :: "string list"
  pr_rowFrom :: jsnum
  pr_rowTo :: jsnum

definition HighlightView_project :: "highlight_payload \<Rightarrow> projection" where
  "HighlightView_project h =
     (let citations = (case hl_evidence h of None \<Rightarrow> [] | Some es \<Rightarrow> es);
          first = (case citations of [] \<Rightarrow> None | e # _ \<Rightarrow> Some e);
          first_range = (case first of None \<Rightarrow> None | Some e \<Rightarrow> ev_range e);
          rows = (case (case first_range of None \<Rightarrow> None | Some g \<Rightarrow> range_rows g) of
                    Some rs \<Rightarrow> rs
                  | None \<Rightarrow> (case hl_rows h of Some rs \<Rightarrow> rs | None \<Rightarrow> [0]));
          cols = (case (case first_range of None \<Rightarrow> None | Some g \<Rightarrow> range_cols g) of
                    Some cs \<Rightarrow> cs
                  | None \<Rightarrow> (case hl_cols h of Some cs \<Rightarrow> cs | None \<Rightarrow> []));
          rowFrom = Math_max [Fin 0, double_sub (Math_min (map Fin rows)) (Fin 5)];
          rowTo = double_add (Math_max (map Fin rows)) (Fin 6)
      in \<lparr> pr_rows = rows, pr_cols = cols, pr_rowFrom = rowFrom, pr_rowTo = rowTo \<rparr>)"

text \<open>
  The rows and the columns that the first evidence entry supplies, \<^verbatim>\<open>first?.range?.rows\<close>
  and \<^verbatim>\<open>first?.range?.cols\<close>: nothing when there is no evidence, no range or no such
  field.
\<close>

definition first_rows :: "highlight_payload \<Rightarrow> int list option" where
  "first_rows h =
     (case hl_evidence h of
        None \<Rightarrow> None
      | Some [] \<Rightarrow> None
      | Some (e # _) \<Rightarrow> (case ev_range e of None \<Rightarrow> None | Some g \<Rightarrow> range_rows g))"

definition first_cols :: "highlight_payload \<Rightarrow> string list option" where
  "first_cols h =
     (case hl_evidence h of
        None \<Rightarrow> None
      | Some [] \<Rightarrow> None
      | Some (e # _) \<Rightarrow> (case ev_range e of None \<Rightarrow> None | Some g \<Rightarrow> range_cols g))"

text \<open>
  The rows that the payload supplies as its citation: those of the first evidence entry,
  else those at the top level, if any.
\<close>

definition supplied_rows :: "highlight_payload \<Rightarrow> int list option" where
  "supplied_rows h = (case first_rows h of Some rs \<Rightarrow> Some rs | None \<Rightarrow> hl_rows h)"

text \<open>The page's \<open>slice\<close> state: the fetched slice with \<open>rowFrom\<close> and the highlight.\<close>

record highlight_slice = slice +
  hs_rowFrom :: jsnum
  hs_highlight :: highlight

record hv_state =
  hv_hl :: "highlight_payload option"
  hv_slice :: "highlight_slice option"
  hv_err :: "string option"
  hv_tableName :: "string option"
  hv_calls :: "api_call list"

text \<open>
  The effect of \<^verbatim>\<open>HighlightView\<close> that loads the highlight: fetch the payload, compute
  the window, fetch the slice, then look the table's name up. A throw of the first two
  calls, or of the spread of the rows when they are more than the engine passes as
  arguments, ends the effect with its text in \<open>err\<close>; a throw of \<^verbatim>\<open>listTables\<close> only
  clears the table name.
\<close>

definition HighlightView_load :: "backend \<Rightarrow> string option \<Rightarrow> hv_state \<Rightarrow> hv_state" where
  "HighlightView_load be highlightId st =
     (case highlightId of
        None \<Rightarrow> st
      | Some hid \<Rightarrow>
          if hid = [] then st
          else
            (let st1 = st\<lparr> hv_calls := hv_calls st @ [CallGetHighlight hid] \<rparr>
             in case be_getHighlight be hid of
                  Inl e \<Rightarrow> st1\<lparr> hv_err := Some (error_text e) \<rparr>
                | Inr h \<Rightarrow>
                    (let st2 = st1\<lparr> hv_hl := Some h \<rparr>;
                         p = HighlightView_project h
                     in if Suc (engine_extra_args be) < length (pr_rows p)
                        then st2\<lparr> hv_err := Some (error_text (engine_range_error be)) \<rparr>
                        else
                     (let cols_arg = (if pr_cols p \<noteq> [] then Some (pr_cols p) else None);
                          st3 = st2\<lparr> hv_calls := hv_calls st2 @
                                 [CallGetSlice (getSlice_request (hl_table_id h)
                                    (pr_rowFrom p) (pr_rowTo p) cols_arg)] \<rparr>
                     in case getSlice (be_fetch_slice be) (hl_table_id h)
                               (pr_rowFrom p) (pr_rowTo p) cols_arg of
                          Inl e \<Rightarrow> st3\<lparr> hv_err := Some (error_text e) \<rparr>
                        | Inr s \<Rightarrow>
                            (let st4 = st3\<lparr> hv_slice := Some
                                         (slice.extend s
                                            (highlight_slice.fields (pr_rowFrom p)
                                               \<lparr> hi_rows = pr_rows p, hi_cols = pr_cols p \<rparr>)) \<rparr>;
                                 st5 = st4\<lparr> hv_calls := hv_calls st4 @ [CallListTables] \<rparr>
                             in case be_listTables be of
                                  Inl _ \<Rightarrow> st5\<lparr> hv_tableName := None \<rparr>
                                | Inr tables \<Rightarrow>
                                    st5\<lparr> hv_tableName :=
                                      (case find (\<lambda>row. tm_table_id row = hl_table_id h) tables of
                                         None \<Rightarrow> None
                                       | Some t \<Rightarrow> if tm_name t \<noteq> [] then Some (tm_name t) else None) \<rparr>)))))"

text \<open>The table the page renders once it has a slice.\<close>

definition HighlightView_table :: "hv_state \<Rightarrow> table_view option" where
  "HighlightView_table st =
     (case hv_slice st of
        None \<Rightarrow> None
      | Some s \<Rightarrow> Some (DataTable (slice_columns s) (slice_rows s)
                          (Some (hs_highlight s)) (Some (hs_rowFrom s))))"

text \<open>The page before its effect has run.\<close>

definition hv_initial :: hv_state where
  "hv_initial = \<lparr> hv_hl = None, hv_slice = None, hv_err = None, hv_tableName = None, hv_calls = [] \<rparr>"

section \<open>The upload page\<close>

text \<open>
  The status line under the upload control: the fixed text \<^verbatim>\<open>"Uploading..."\<close>, or the
  template \<^verbatim>\<open>`${msg}${job.status} (${job.progress ?? 0}%)`\<close>, kept as its three parts.
\<close>

datatype status_line = Uploading | Progress string string int

text \<open>
  The state of \<^verbatim>\<open>Upload\<close> that uploading and previewing touch (the selected file is
  known by its name), with the log of the calls made.
\<close>

record upload_state =
  up_file :: "string option"
  up_name :: string
  up_tables :: "table_meta list"
  up_busy :: bool
  up_err :: "string option"
  up_status :: "status_line option"
  up_preview :: "slice option"
  up_previewErr :: "string option"
  up_previewBusy :: bool
  up_activeTableId :: "string option"
  up_toast :: "string option"
  up_calls :: "api_call list"

text \<open>
  \<^verbatim>\<open>refresh\<close>: list the tables and store them. It has no handler of its own, so a throw
  of \<^verbatim>\<open>listTables\<close> is returned to the caller (the first component).
\<close>

definition refresh :: "backend \<Rightarrow> upload_state \<Rightarrow> exn option \<times> upload_state" where
  "refresh be s =
     (let s1 = s\<lparr> up_calls := up_calls s @ [CallListTables] \<rparr>
      in case be_listTables be of
           Inl e \<Rightarrow> (Some e, s1)
         | Inr t \<Rightarrow> (None, s1\<lparr> up_tables := t \<rparr>))"

text \<open>
  \<^verbatim>\<open>loadPreview\<close>: fetch rows 0 to 50 of the table, all columns; a throw is caught here
  and shown as the preview's error.
\<close>

definition loadPreview :: "backend \<Rightarrow> string \<Rightarrow> upload_state \<Rightarrow> upload_state" where
  "loadPreview be tableId s =
     (let s1 = s\<lparr> up_activeTableId := Some tableId, up_previewBusy := True, up_previewErr := None,
                  up_calls := up_calls s @ [CallGetSlice (getSlice_request tableId (Fin 0) (Fin 50) None)] \<rparr>;
          s2 = (case getSlice (be_fetch_slice be) tableId (Fin 0) (Fin 50) None of
                  Inr sl \<Rightarrow> s1\<lparr> up_preview := Some sl \<rparr>
                | Inl e \<Rightarrow> s1\<lparr> up_previewErr := Some (error_text e), up_preview := None \<rparr>)
      in s2\<lparr> up_previewBusy := False \<rparr>)"

text \<open>
  The polling loop of \<^verbatim>\<open>onUpload\<close>, \<^verbatim>\<open>while (true) { ... }\<close>, from poll number \<open>k\<close> on.
  The loop has no bound of its own, so the model takes fuel, one unit per iteration, and
  returns \<open>None\<close> when it runs out. Otherwise it returns the state with the exception
  that left the loop, if one did: a throw of \<^verbatim>\<open>getJob\<close> or of \<^verbatim>\<open>refresh\<close>, or the
  error thrown for a job of status \<open>error\<close>. The timer that clears the toast later is
  not part of the run.
\<close>

fun poll :: "nat \<Rightarrow> backend \<Rightarrow> string \<Rightarrow> nat \<Rightarrow> upload_state \<Rightarrow> (exn option \<times> upload_state) option" where
  "poll 0 be jobId k s = None"
| "poll (Suc fuel) be jobId k s =
     (let s1 = s\<lparr> up_calls := up_calls s @ [CallGetJob jobId] \<rparr>
      in case be_getJob be jobId k of
           Inl e \<Rightarrow> Some (Some e, s1)
         | Inr job \<Rightarrow>
             if job_status job = ''done'' \<or> job_status job = ''indexing'' then
               (case refresh be (s1\<lparr> up_status := None \<rparr>) of
                  (Some e, s2) \<Rightarrow> Some (Some e, s2)
                | (None, s2) \<Rightarrow>
                    (let s3 = (case job_table_id job of
                                 None \<Rightarrow> s2
                               | Some tid \<Rightarrow> if tid \<noteq> [] then loadPreview be tid s2 else s2)
                     in Some (None, s3\<lparr> up_toast := Some ''File uploaded successfully'',
                                         up_file := None,
                                         up_name := ''Uploaded Table'' \<rparr>)))
             else if job_status job = ''error'' then
               Some (Some (Exn ''Error''
                       (case job_message job of
                          None \<Rightarrow> ''Upload failed.''
                        | Some m \<Rightarrow> if m \<noteq> [] then m else ''Upload failed.'')), s1)
             else
               (let msg = (case job_message job of
                             None \<Rightarrow> []
                           | Some m \<Rightarrow> if m \<noteq> [] then m @ '' '' else []);
                    s2 = s1\<lparr> up_status := Some (Progress msg (job_status job)
                                                (case job_progress job of None \<Rightarrow> 0 | Some p \<Rightarrow> p)) \<rparr>;
                    s3 = s2\<lparr> up_calls := up_calls s2 @ [Sleep 500] \<rparr>
                in poll fuel be jobId (Suc k) s3))"

text \<open>
  \<^verbatim>\<open>onUpload\<close>: nothing without a file; otherwise submit the file, poll the job, show
  the text of whatever was thrown, and clear \<open>busy\<close> at the end.
\<close>

definition onUpload :: "nat \<Rightarrow> backend \<Rightarrow> upload_state \<Rightarrow> upload_state option" where
  "onUpload fuel be s =
     (case up_file s of
        None \<Rightarrow> Some s
      | Some file \<Rightarrow>
          (let s1 = s\<lparr> up_busy := True, up_err := None, up_status := Some Uploading \<rparr>;
               s2 = s1\<lparr> up_calls := up_calls s1 @ [CallUploadTable file (up_name s)] \<rparr>;
               no_job = Exn ''Error'' ''Upload started, but no job id was returned.'';
               tried = (case be_uploadTable be file (up_name s) of
                          Inl e \<Rightarrow> Some (Some e, s2)
                        | Inr res \<Rightarrow>
                            (case up_job_id res of
                               None \<Rightarrow> Some (Some no_job, s2)
                             | Some jobId \<Rightarrow>
                                 if jobId = [] then Some (Some no_job, s2)
                                 else poll fuel be jobId 0 s2))
           in case tried of
                None \<Rightarrow> None
              | Some (None, s3) \<Rightarrow> Some (s3\<lparr> up_busy := False \<rparr>)
              | Some (Some e, s3) \<Rightarrow> Some (s3\<lparr> up_err := Some (error_text e), up_busy := False \<rparr>)))"

text \<open>The job-status fetches, the slice fetches and the table listings in a log of calls.\<close>

definition is_listTables :: "api_call \<Rightarrow> bool" where
  "is_listTables c = (c = CallListTables)"

fun is_getJob :: "api_call \<Rightarrow> bool" where
  "is_getJob (CallGetJob _) = True"
| "is_getJob _ = False"

fun is_getSlice :: "api_call \<Rightarrow> bool" where
  "is_getSlice (CallGetSlice _) = True"
| "is_getSlice _ = False"

text \<open>
  The three ways a poll leaves the loop, read off its branches: a success status, the
  status \<open>error\<close>, or a throw of the fetch. A poll that does none of these goes round
  again.
\<close>

definition succeeded :: "job \<Rightarrow> bool" where
  "succeeded j = (job_status j = ''done'' \<or> job_status j = ''indexing'')"

definition failed :: "job \<Rightarrow> bool" where
  "failed j = (job_status j = ''error'')"

fun goes_on :: "exn + job \<Rightarrow> bool" where
  "goes_on (Inl e) = False"
| "goes_on (Inr j) = (\<not> succeeded j \<and> \<not> failed j)"

text \<open>
  The page after a file was selected (\<^verbatim>\<open>onSelectFile\<close> sets the file and takes its name
  as the table's name), nothing uploaded yet.
\<close>

definition up_initial :: "string \<Rightarrow> upload_state" where
  "up_initial file =
     \<lparr> up_file = Some file, up_name = file, up_tables = [], up_busy = False, up_err = None,
       up_status = None, up_preview = None, up_previewErr = None, up_previewBusy = False,
       up_activeTableId = None, up_toast = None, up_calls = [] \<rparr>"

text \<open>
  The upload was accepted and gave the job id \<open>jobId\<close>: a file is selected,
  \<^verbatim>\<open>uploadTable\<close> resolved, and its \<open>job_id\<close> is a non-empty string.
\<close>

definition job_started :: "backend \<Rightarrow> upload_state \<Rightarrow> string \<Rightarrow> bool" where
  "job_started be s jobId =
     (case up_file s of
        None \<Rightarrow> False
      | Some file \<Rightarrow>
          (case be_uploadTable be file (up_name s) of
             Inl e \<Rightarrow> False
           | Inr res \<Rightarrow> up_job_id res = Some jobId \<and> jobId \<noteq> []))"

section \<open>Scenarios\<close>

text \<open>
  Concrete payloads, jobs and backends on which the theorems below are run. A highlight
  backend serves one payload and answers every slice request with the given body. The
  engine of the scenarios passes 65536 arguments.
\<close>

definition too_many_arguments :: exn where
  "too_many_arguments = Exn ''RangeError'' ''Maximum call stack size exceeded''"

definition highlight_backend :: "highlight_payload \<Rightarrow> slice_body \<Rightarrow> backend" where
  "highlight_backend h body =
     \<lparr> be_getHighlight = (\<lambda>hid. Inr h),
       be_fetch_slice = (\<lambda>req. Inr body),
       be_listTables = Inr [],
       be_uploadTable = (\<lambda>file name. Inr \<lparr> up_job_id = None \<rparr>),
       be_getJob = (\<lambda>jobId k. Inl (Exn ''Error'' ''Not Found'')),
       engine_extra_args = 65535,
       engine_range_error = too_many_arguments \<rparr>"

definition no_body_rows :: slice_body where
  "no_body_rows = \<lparr> body_columns = [], body_rows = Some [] \<rparr>"

definition no_rows_payload :: highlight_payload where
  "no_rows_payload = \<lparr> hl_table_id = ''t1'', hl_evidence = None, hl_rows = None, hl_cols = None \<rparr>"

definition empty_rows_payload :: highlight_payload where
  "empty_rows_payload =
     \<lparr> hl_table_id = ''t1'',
       hl_evidence = Some [\<lparr> ev_range = Some \<lparr> range_rows = Some [], range_cols = Some [] \<rparr> \<rparr>],
       hl_rows = None, hl_cols = None \<rparr>"

definition two_entries_payload :: highlight_payload where
  "two_entries_payload =
     \<lparr> hl_table_id = ''t1'',
       hl_evidence = Some [\<lparr> ev_range = Some \<lparr> range_rows = Some [7], range_cols = Some [''amount''] \<rparr> \<rparr>,
                           \<lparr> ev_range = Some \<lparr> range_rows = Some [900], range_cols = Some [''city''] \<rparr> \<rparr>],
       hl_rows = Some [55], hl_cols = None \<rparr>"

text \<open>
  Four payloads with rows at the top level: the rows 42 and 3; the single entry \<open>-3\<close>;
  the single row \<open>2^54\<close>; and 70000 rows.
\<close>

definition rows_42_3_payload :: highlight_payload where
  "rows_42_3_payload =
     \<lparr> hl_table_id = ''t1'', hl_evidence = None, hl_rows = Some [42, 3], hl_cols = Some [''amount''] \<rparr>"

definition negative_row_payload :: highlight_payload where
  "negative_row_payload =
     \<lparr> hl_table_id = ''t1'', hl_evidence = None, hl_rows = Some [- 3], hl_cols = None \<rparr>"

definition huge_row_payload :: highlight_payload where
  "huge_row_payload =
     \<lparr> hl_table_id = ''t1'', hl_evidence = None, hl_rows = Some [18014398509481984], hl_cols = None \<rparr>"

definition long_rows_payload :: highlight_payload where
  "long_rows_payload =
     \<lparr> hl_table_id = ''t1'', hl_evidence = None, hl_rows = Some (replicate 70000 7), hl_cols = None \<rparr>"

text \<open>The citation of row 42, column \<open>amount\<close>, and the six rows 37 to 42 of a table of 43 rows.\<close>

definition row_42_payload :: highlight_payload where
  "row_42_payload =
     \<lparr> hl_table_id = ''t1'',
       hl_evidence = Some [\<lparr> ev_range = Some \<lparr> range_rows = Some [42], range_cols = Some [''amount''] \<rparr> \<rparr>],
       hl_rows = None, hl_cols = None \<rparr>"

definition six_rows :: "row_record list" where
  "six_rows = map (\<lambda>v. [''amount'' \<mapsto> v]) [''a'', ''b'', ''c'', ''d'', ''e'', ''f'']"

text \<open>
  An upload backend accepts every upload as job \<open>j1\<close>, answers the polls from a script
  (and with \<open>processing\<close> once the script is over), and lists the given tables.
\<close>

definition job_processing :: "int \<Rightarrow> job" where
  "job_processing p =
     \<lparr> job_status = ''processing'', job_progress = Some p, job_message = None, job_table_id = None \<rparr>"

definition job_done :: "string \<Rightarrow> job" where
  "job_done tid =
     \<lparr> job_status = ''done'', job_progress = Some 100, job_message = None, job_table_id = Some tid \<rparr>"

definition job_error :: "string option \<Rightarrow> job" where
  "job_error m =
     \<lparr> job_status = ''error'', job_progress = None, job_message = m, job_table_id = None \<rparr>"

definition upload_backend :: "(exn + job) list \<Rightarrow> exn + table_meta list \<Rightarrow> backend" where
  "upload_backend script tables =
     \<lparr> be_getHighlight = (\<lambda>hid. Inl (Exn ''Error'' ''Not Found'')),
       be_fetch_slice = (\<lambda>req. Inr no_body_rows),
       be_listTables = tables,
       be_uploadTable = (\<lambda>file name. Inr \<lparr> up_job_id = Some ''j1'' \<rparr>),
       be_getJob = (\<lambda>jobId k. if k < length script then script ! k else Inr (job_processing 0)),
       engine_extra_args = 65535,
       engine_range_error = too_many_arguments \<rparr>"

definition three_polls :: "(exn + job) list" where
  "three_polls = [Inr (job_processing 30), Inr (job_processing 70), Inr (job_done ''t9'')]"

definition fetch_fails_once :: "(exn + job) list" where
  "fetch_fails_once = [Inl (Exn ''TypeError'' ''Failed to fetch''), Inr (job_done ''t9'')]"

definition done_t9 :: "(exn + job) list" where
  "done_t9 = [Inr (job_done ''t9'')]"

section \<open>Properties of the numbers\<close>

lemma Math_max_pair_Fin: "Math_max [Fin a, Fin b] = Fin (max a b)"
  by (simp add: Math_max_def)


text \<open>On the safe integers the rounding changes nothing.\<close>

lemma ulp_small: "n < 2 ^ 53 \<Longrightarrow> ulp n = 1"
  by (simp add: ulp.simps)

lemma round_half_even_small: "n < 2 ^ 53 \<Longrightarrow> round_half_even n = n"
  by (simp add: round_half_even_def ulp_small)

lemma to_double_safe:
  assumes "safe_int x"
  shows "to_double x = Fin x"
proof -
  from assms have small: "nat \<bar>x\<bar> < 2 ^ 53"
    by (simp add: safe_int_def)
  have "(2::nat) ^ 53 \<le> 2 ^ 1024"
    by (rule power_increasing) simp_all
  with small have "\<not> (2::nat) ^ 1024 \<le> nat \<bar>x\<bar>"
    by linarith
  with small show ?thesis
    by (simp add: to_double_def round_half_even_small Let_def del: power_numeral)
qed

lemma double_add_safe: "safe_int (a + b) \<Longrightarrow> double_add (Fin a) (Fin b) = Fin (a + b)"
  by (simp add: to_double_safe)

lemma double_sub_safe: "safe_int (a - b) \<Longrightarrow> double_sub (Fin a) (Fin b) = Fin (a - b)"
  by (simp add: double_sub_def to_double_safe)

text \<open>The rounding gives a number, never \<open>NaN\<close>.\<close>

lemma to_double_cases:
  "to_double x = PosInf \<or> to_double x = NegInf \<or> (\<exists>v. to_double x = Fin v)"
  by (simp add: to_double_def Let_def)

text \<open>
  Beyond the safe integers it does: \<open>2^53 + 1\<close> is a tie and goes to \<open>2^53\<close>, and
  around \<open>2^54\<close> the doubles are 2 apart below it and 4 apart above it.
\<close>

lemma round_2_53_plus_1: "round_half_even 9007199254740993 = 9007199254740992"
  by (simp add: round_half_even_def ulp.simps Let_def)

lemma round_2_54_minus_5: "round_half_even 18014398509481979 = 18014398509481980"
  by (simp add: round_half_even_def ulp.simps Let_def)

lemma round_2_54_plus_6: "round_half_even 18014398509481990 = 18014398509481992"
  by (simp add: round_half_even_def ulp.simps Let_def)

lemma to_double_2_53_plus_1: "to_double 9007199254740993 = Fin 9007199254740992"
  by (simp add: to_double_def round_2_53_plus_1)

lemma to_double_2_54_minus_5: "to_double 18014398509481979 = Fin 18014398509481980"
  by (simp add: to_double_def round_2_54_minus_5)

lemma to_double_2_54_plus_6: "to_double 18014398509481990 = Fin 18014398509481992"
  by (simp add: to_double_def round_2_54_plus_6)

lemma foldl_js_max2_Fin: "foldl js_max2 (Fin a) (map Fin xs) = Fin (Max (set (a # xs)))"
proof (induction xs arbitrary: a)
  case Nil
  then show ?case by simp
next
  case (Cons x xs)
  have "Max (insert (max a x) (set xs)) = Max (insert a (insert x (set xs)))"
    by (cases "set xs = {}") (auto simp: max.assoc)
  with Cons show ?case by simp
qed

lemma foldl_js_min2_Fin: "foldl js_min2 (Fin a) (map Fin xs) = Fin (Min (set (a # xs)))"
proof (induction xs arbitrary: a)
  case Nil
  then show ?case by simp
next
  case (Cons x xs)
  have "Min (insert (min a x) (set xs)) = Min (insert a (insert x (set xs)))"
    by (cases "set xs = {}") (auto simp: min.assoc)
  with Cons show ?case by simp
qed

text \<open>On a non-empty list of integers, \<^verbatim>\<open>Math.max\<close> and \<^verbatim>\<open>Math.min\<close> are the usual ones.\<close>

lemma Math_max_Fin: "xs \<noteq> [] \<Longrightarrow> Math_max (map Fin xs) = Fin (Max (set xs))"
  by (cases xs) (simp_all add: Math_max_def foldl_js_max2_Fin)

lemma Math_min_Fin: "xs \<noteq> [] \<Longrightarrow> Math_min (map Fin xs) = Fin (Min (set xs))"
  by (cases xs) (simp_all add: Math_min_def foldl_js_min2_Fin)

section \<open>Properties of the slice client\<close>

text \<open>The limit of a request is a number from 1 on, or \<open>+Infinity\<close>.\<close>

lemma limit_at_least_1:
  "Math_max [Fin 1, double_sub (Fin b) (Fin a)] = PosInf
   \<or> (\<exists>l. Math_max [Fin 1, double_sub (Fin b) (Fin a)] = Fin l \<and> 1 \<le> l)"
proof -
  have sub: "double_sub (Fin b) (Fin a) = to_double (b - a)"
    by (simp add: double_sub_def)
  from to_double_cases [of "b - a"] show ?thesis
    unfolding sub by (auto simp: Math_max_def)
qed

text \<open>
  Claim C9, as stated, fails. The operands are doubles, and so is their difference:
  \<^verbatim>\<open>getSlice("t1", -1, 2^53)\<close> asks for \<open>2^53\<close> rows, not for the
  \<open>2^53 + 1\<close> that \<open>max 1 (rowTo - rowFrom)\<close> is.
\<close>

theorem getSlice_rounds_counterexample:
  "req_limit (getSlice_request ''t1'' (Fin (- 1)) (Fin 9007199254740992) None) = Fin 9007199254740992
   \<and> getSlice (\<lambda>req. Inr no_body_rows) ''t1'' (Fin (- 1)) (Fin 9007199254740992) None
       = Inr \<lparr> slice_columns = [], slice_rows = [], slice_offset = Fin 0,
               slice_limit = Fin 9007199254740992 \<rparr>
   \<and> max 1 (9007199254740992 - (- 1)) = (9007199254740993 :: int)"
  by (simp add: getSlice_def getSlice_request_def no_body_rows_def double_sub_def
      to_double_2_53_plus_1 Math_max_def)

text \<open>
  Claim C9, amended. For every table id, every column list and all integers \<open>rowFrom\<close>
  and \<open>rowTo\<close>, \<^verbatim>\<open>getSlice\<close> sends exactly one request, for that table and those
  columns, and resolves or throws as the request does; the offset requested is a number
  from 0 on and the limit a number from 1 on (or \<open>+Infinity\<close>), also for a negative
  \<open>rowFrom\<close> and for \<open>rowTo \<le> rowFrom\<close>. When \<open>rowFrom\<close>, \<open>rowTo\<close> and their
  difference are safe integers, the offset is \<open>max 0 rowFrom\<close> and the limit is
  \<open>max 1 (rowTo - rowFrom)\<close>.
\<close>

theorem getSlice_clamped:
  "\<exists>off lim.
     getSlice fetch_slice tableId (Fin rowFrom) (Fin rowTo) cols =
       (case fetch_slice
               \<lparr> req_table = tableId, req_offset = off, req_limit = lim,
                 req_cols = (case cols of
                               None \<Rightarrow> None
                             | Some cs \<Rightarrow> if cs \<noteq> [] then Some (join_comma cs) else None) \<rparr> of
          Inl e \<Rightarrow> Inl e
        | Inr data \<Rightarrow>
            Inr \<lparr> slice_columns = body_columns data,
                  slice_rows = map unwrap_row (case body_rows data of None \<Rightarrow> [] | Some rs \<Rightarrow> rs),
                  slice_offset = off, slice_limit = lim \<rparr>)
     \<and> (\<exists>k. off = Fin k \<and> 0 \<le> k)
     \<and> (lim = PosInf \<or> (\<exists>l. lim = Fin l \<and> 1 \<le> l))
     \<and> (safe_int rowFrom \<and> safe_int rowTo \<and> safe_int (rowTo - rowFrom) \<longrightarrow>
           off = Fin (max 0 rowFrom) \<and> lim = Fin (max 1 (rowTo - rowFrom)))"
proof -
  let ?off = "Math_max [Fin 0, Fin rowFrom]"
  let ?lim = "Math_max [Fin 1, double_sub (Fin rowTo) (Fin rowFrom)]"
  have run: "getSlice fetch_slice tableId (Fin rowFrom) (Fin rowTo) cols =
       (case fetch_slice
               \<lparr> req_table = tableId, req_offset = ?off, req_limit = ?lim,
                 req_cols = (case cols of
                               None \<Rightarrow> None
                             | Some cs \<Rightarrow> if cs \<noteq> [] then Some (join_comma cs) else None) \<rparr> of
          Inl e \<Rightarrow> Inl e
        | Inr data \<Rightarrow>
            Inr \<lparr> slice_columns = body_columns data,
                  slice_rows = map unwrap_row (case body_rows data of None \<Rightarrow> [] | Some rs \<Rightarrow> rs),
                  slice_offset = ?off, slice_limit = ?lim \<rparr>)"
    by (simp add: getSlice_def getSlice_request_def Let_def split: sum.splits)
  have off: "?off = Fin (max 0 rowFrom)"
    by (rule Math_max_pair_Fin)
  then have off_pos: "\<exists>k. ?off = Fin k \<and> 0 \<le> k"
    by simp
  have lim_pos: "?lim = PosInf \<or> (\<exists>l. ?lim = Fin l \<and> 1 \<le> l)"
    by (rule limit_at_least_1)
  have exact: "?lim = Fin (max 1 (rowTo - rowFrom))" if "safe_int (rowTo - rowFrom)"
    using that by (simp add: double_sub_safe Math_max_pair_Fin)
  from run off off_pos lim_pos exact show ?thesis
    by blast
qed

text \<open>A negative \<open>rowFrom\<close> with \<open>rowTo\<close> below it: offset 0 and limit 1.\<close>

theorem getSlice_clamped_witness:
  "safe_int (- 3) \<and> safe_int (- 7) \<and> safe_int (- 7 - (- 3))
   \<and> getSlice (\<lambda>req. if req_offset req = Fin 0 \<and> req_limit req = Fin 1
                        then Inr no_body_rows else Inl (Exn ''Error'' ''Bad Request''))
        ''t1'' (Fin (- 3)) (Fin (- 7)) None
       = Inr \<lparr> slice_columns = [], slice_rows = [], slice_offset = Fin 0, slice_limit = Fin 1 \<rparr>"
proof -
  let ?f = "\<lambda>req. if req_offset req = Fin 0 \<and> req_limit req = Fin 1
                   then Inr no_body_rows else Inl (Exn ''Error'' ''Bad Request'')"
  have safe: "safe_int (- 3) \<and> safe_int (- 7) \<and> safe_int (- 7 - (- 3))"
    by (simp add: safe_int_def)
  from getSlice_clamped [of ?f "''t1''" "- 3" "- 7" None] obtain off lim where
    run: "getSlice ?f ''t1'' (Fin (- 3)) (Fin (- 7)) None =
       (case ?f \<lparr> req_table = ''t1'', req_offset = off, req_limit = lim, req_cols = None \<rparr> of
          Inl e \<Rightarrow> Inl e
        | Inr data \<Rightarrow>
            Inr \<lparr> slice_columns = body_columns data,
                  slice_rows = map unwrap_row (case body_rows data of None \<Rightarrow> [] | Some rs \<Rightarrow> rs),
                  slice_offset = off, slice_limit = lim \<rparr>)"
    and eq: "safe_int (- 3) \<and> safe_int (- 7) \<and> safe_int (- 7 - (- 3)) \<longrightarrow>
               off = Fin (max 0 (- 3)) \<and> lim = Fin (max 1 (- 7 - (- 3)))"
    by auto
  from eq safe have "off = Fin 0" and "lim = Fin 1"
    by simp_all
  with run safe show ?thesis
    by (simp add: no_body_rows_def)
qed

section \<open>Properties of the highlight page\<close>

text \<open>The fallback chain of the rows and of the columns.\<close>

lemma project_rows:
  "pr_rows (HighlightView_project h) =
     (case first_rows h of
        Some rs \<Rightarrow> rs
      | None \<Rightarrow> (case hl_rows h of Some rs \<Rightarrow> rs | None \<Rightarrow> [0]))"
  by (simp add: HighlightView_project_def first_rows_def Let_def split: option.splits list.splits)

lemma project_cols:
  "pr_cols (HighlightView_project h) =
     (case first_cols h of
        Some cs \<Rightarrow> cs
      | None \<Rightarrow> (case hl_cols h of Some cs \<Rightarrow> cs | None \<Rightarrow> []))"
  by (simp add: HighlightView_project_def first_cols_def Let_def split: option.splits list.splits)

text \<open>The window, where the arithmetic on the smallest and the largest row is exact.\<close>

lemma project_window:
  assumes "pr_rows (HighlightView_project h) = R" and "R \<noteq> []"
      and "safe_int (Min (set R) - 5)" and "safe_int (Max (set R) + 6)"
  shows "pr_rowFrom (HighlightView_project h) = Fin (max 0 (Min (set R) - 5))
       \<and> pr_rowTo (HighlightView_project h) = Fin (Max (set R) + 6)"
proof -
  let ?p = "HighlightView_project h"
  have "pr_rowFrom ?p = Math_max [Fin 0, double_sub (Math_min (map Fin (pr_rows ?p))) (Fin 5)]"
    and "pr_rowTo ?p = double_add (Math_max (map Fin (pr_rows ?p))) (Fin 6)"
    by (simp_all add: HighlightView_project_def Let_def)
  with assms show ?thesis
    by (simp add: Math_min_Fin Math_max_Fin double_sub_safe to_double_safe Math_max_pair_Fin)
qed

lemma supplied_rows_projected:
  assumes "supplied_rows h = Some R"
  shows "pr_rows (HighlightView_project h) = R"
  using assms by (simp add: project_rows supplied_rows_def split: option.splits)

text \<open>
  Claim C1, as stated, fails, in three ways. A negative entry lies below the window:
  the rows \<open>[-3]\<close> give the window \<open>[0, 3)\<close>. Beyond the safe integers the window is
  rounded: the row \<open>2^54\<close> gives \<open>rowFrom = 2^54 - 4\<close> and \<open>rowTo = 2^54 + 8\<close>. And
  rows that are more than the engine passes as arguments give no window at all: the
  spread throws, the page shows the engine's error and fetches no slice.
\<close>

theorem window_counterexample:
  "supplied_rows negative_row_payload = Some [- 3]
   \<and> pr_rowFrom (HighlightView_project negative_row_payload) = Fin 0
   \<and> pr_rowTo (HighlightView_project negative_row_payload) = Fin 3
   \<and> (- 3 :: int) < 0
   \<and> supplied_rows huge_row_payload = Some [18014398509481984]
   \<and> pr_rowFrom (HighlightView_project huge_row_payload) = Fin 18014398509481980
   \<and> pr_rowTo (HighlightView_project huge_row_payload) = Fin 18014398509481992
   \<and> supplied_rows long_rows_payload = Some (replicate 70000 7)
   \<and> hv_err (HighlightView_load (highlight_backend long_rows_payload no_body_rows) (Some ''h1'') hv_initial)
       = Some ''Maximum call stack size exceeded''
   \<and> hv_calls (HighlightView_load (highlight_backend long_rows_payload no_body_rows) (Some ''h1'') hv_initial)
       = [CallGetHighlight ''h1'']"
proof -
  have neg: "supplied_rows negative_row_payload = Some [- 3]"
    by (simp add: supplied_rows_def first_rows_def negative_row_payload_def)
  have neg_window: "pr_rowFrom (HighlightView_project negative_row_payload) = Fin 0
                  \<and> pr_rowTo (HighlightView_project negative_row_payload) = Fin 3"
    by (simp add: HighlightView_project_def negative_row_payload_def Math_max_def Math_min_def
        double_sub_def to_double_safe safe_int_def)
  have huge: "supplied_rows huge_row_payload = Some [18014398509481984]"
    by (simp add: supplied_rows_def first_rows_def huge_row_payload_def)
  have huge_window: "pr_rowFrom (HighlightView_project huge_row_payload) = Fin 18014398509481980
                   \<and> pr_rowTo (HighlightView_project huge_row_payload) = Fin 18014398509481992"
    by (simp add: HighlightView_project_def huge_row_payload_def Math_max_def Math_min_def
        double_sub_def to_double_2_54_minus_5 to_double_2_54_plus_6)
  have long: "supplied_rows long_rows_payload = Some (replicate 70000 7)"
    by (simp add: supplied_rows_def first_rows_def long_rows_payload_def)
  have len: "length (pr_rows (HighlightView_project long_rows_payload)) = 70000"
    by (simp add: supplied_rows_projected [OF long])
  have long_run: "hv_err (HighlightView_load (highlight_backend long_rows_payload no_body_rows) (Some ''h1'') hv_initial)
       = Some ''Maximum call stack size exceeded''
   \<and> hv_calls (HighlightView_load (highlight_backend long_rows_payload no_body_rows) (Some ''h1'') hv_initial)
       = [CallGetHighlight ''h1'']"
    by (simp add: HighlightView_load_def highlight_backend_def hv_initial_def len Let_def
        too_many_arguments_def error_text_def)
  from neg neg_window huge huge_window long long_run show ?thesis
    by simp
qed

text \<open>
  Claim C1, amended. For every citation whose rows \<open>R\<close> (those the payload supplies) are
  not empty, are no more than the engine passes as arguments of one call, and are such
  that \<open>r - 5\<close> and \<open>r + 6\<close> are safe integers for each row \<open>r\<close>: the window of the
  highlight page is \<open>rowFrom = max 0 (Min R - 5)\<close> and \<open>rowTo = Max R + 6\<close>, the slice is
  fetched over that window, and every row \<open>r\<close> of \<open>R\<close> satisfies \<open>r < rowTo\<close> and, when
  it is not negative, \<open>rowFrom \<le> r\<close>.
\<close>

theorem HighlightView_window:
  assumes "hid \<noteq> []" and "be_getHighlight be hid = Inr h"
      and "supplied_rows h = Some R" and "R \<noteq> []"
      and "length R \<le> Suc (engine_extra_args be)"
      and "\<forall>r\<in>set R. safe_int (r - 5) \<and> safe_int (r + 6)"
  shows "pr_rows (HighlightView_project h) = R
       \<and> pr_rowFrom (HighlightView_project h) = Fin (max 0 (Min (set R) - 5))
       \<and> pr_rowTo (HighlightView_project h) = Fin (Max (set R) + 6)
       \<and> (\<exists>cs. CallGetSlice (getSlice_request (hl_table_id h)
                                (Fin (max 0 (Min (set R) - 5))) (Fin (Max (set R) + 6)) cs)
              \<in> set (hv_calls (HighlightView_load be (Some hid) st)))
       \<and> (\<forall>r\<in>set R. (0 \<le> r \<longrightarrow> max 0 (Min (set R) - 5) \<le> r) \<and> r < Max (set R) + 6)"
proof -
  let ?p = "HighlightView_project h"
  have rows: "pr_rows ?p = R"
    using assms(3) by (rule supplied_rows_projected)
  from assms(4) have "Min (set R) \<in> set R" and "Max (set R) \<in> set R"
    by simp_all
  with assms(6) have safe: "safe_int (Min (set R) - 5)" "safe_int (Max (set R) + 6)"
    by blast+
  from project_window [OF rows assms(4) safe]
  have win: "pr_rowFrom ?p = Fin (max 0 (Min (set R) - 5))" "pr_rowTo ?p = Fin (Max (set R) + 6)"
    by simp_all
  from assms(5) rows have fits: "\<not> Suc (engine_extra_args be) < length (pr_rows ?p)"
    by simp
  have call: "\<exists>cs. CallGetSlice (getSlice_request (hl_table_id h)
                                (Fin (max 0 (Min (set R) - 5))) (Fin (Max (set R) + 6)) cs)
              \<in> set (hv_calls (HighlightView_load be (Some hid) st))"
    using assms(1,2) fits win
    by (auto simp: HighlightView_load_def Let_def split: sum.splits)
  have bounds: "Min (set R) \<le> r \<and> r \<le> Max (set R)" if "r \<in> set R" for r
    using that by simp
  have inside: "(0 \<le> r \<longrightarrow> max 0 (Min (set R) - 5) \<le> r) \<and> r < Max (set R) + 6"
    if "r \<in> set R" for r
    using bounds [OF that] by auto
  from rows win call inside show ?thesis
    by blast
qed

text \<open>Rows 42 and 3 at the top level of the payload: the window is \<open>[0, 48)\<close>.\<close>

theorem HighlightView_window_witness:
  "supplied_rows rows_42_3_payload = Some [42, 3]
   \<and> pr_rowFrom (HighlightView_project rows_42_3_payload) = Fin 0
   \<and> pr_rowTo (HighlightView_project rows_42_3_payload) = Fin 48"
proof -
  let ?be = "highlight_backend rows_42_3_payload no_body_rows"
  have h1: "''h1'' \<noteq> []" by simp
  have h2: "be_getHighlight ?be ''h1'' = Inr rows_42_3_payload"
    by (simp add: highlight_backend_def)
  have h3: "supplied_rows rows_42_3_payload = Some [42, 3]"
    by (simp add: supplied_rows_def first_rows_def rows_42_3_payload_def)
  have h4: "[42, 3] \<noteq> ([] :: int list)" by simp
  have h5: "length [42, 3 :: int] \<le> Suc (engine_extra_args ?be)"
    by (simp add: highlight_backend_def)
  have h6: "\<forall>r\<in>set [42, 3 :: int]. safe_int (r - 5) \<and> safe_int (r + 6)"
    by (simp add: safe_int_def)
  from HighlightView_window [OF h1 h2 h3 h4 h5 h6] h3 show ?thesis
    by simp
qed

text \<open>
  Claim C2, as stated, fails. A payload whose rows are the empty array is not rejected:
  the window is computed from \<open>+Infinity\<close> and \<open>-Infinity\<close> and the slice is fetched
  with offset \<open>Infinity\<close> and limit 1. A payload with no rows at all is not rejected
  either: the rows default to \<open>[0]\<close> and the slice is fetched for the window \<open>[0, 6)\<close>.
  In both runs no error is shown.
\<close>

theorem empty_rows_counterexample:
  "hv_err (HighlightView_load (highlight_backend empty_rows_payload no_body_rows) (Some ''h1'') hv_initial)
     = None
   \<and> hv_calls (HighlightView_load (highlight_backend empty_rows_payload no_body_rows) (Some ''h1'') hv_initial)
     = [CallGetHighlight ''h1'',
        CallGetSlice \<lparr> req_table = ''t1'', req_offset = PosInf, req_limit = Fin 1, req_cols = None \<rparr>,
        CallListTables]
   \<and> hv_err (HighlightView_load (highlight_backend no_rows_payload no_body_rows) (Some ''h1'') hv_initial)
     = None
   \<and> hv_calls (HighlightView_load (highlight_backend no_rows_payload no_body_rows) (Some ''h1'') hv_initial)
     = [CallGetHighlight ''h1'',
        CallGetSlice \<lparr> req_table = ''t1'', req_offset = Fin 0, req_limit = Fin 6, req_cols = None \<rparr>,
        CallListTables]"
  by (simp add: HighlightView_load_def HighlightView_project_def highlight_backend_def
      empty_rows_payload_def no_rows_payload_def no_body_rows_def hv_initial_def getSlice_def
      getSlice_request_def Math_max_def Math_min_def double_sub_def to_double_safe safe_int_def)

text \<open>
  Claim C2, amended. For every payload that supplies no rows, neither in its first
  evidence entry nor at the top level, the projection does not fail: the rows are the
  default \<open>[0]\<close>, the window is \<open>[0, 6)\<close>, and the slice fetch for offset 0 and limit 6 is
  issued.
\<close>

theorem missing_rows_default:
  assumes "hid \<noteq> []" and "be_getHighlight be hid = Inr h"
      and "first_rows h = None" and "hl_rows h = None"
  shows "pr_rows (HighlightView_project h) = [0]
       \<and> pr_rowFrom (HighlightView_project h) = Fin 0
       \<and> pr_rowTo (HighlightView_project h) = Fin 6
       \<and> (\<exists>cs. CallGetSlice \<lparr> req_table = hl_table_id h, req_offset = Fin 0,
                               req_limit = Fin 6, req_cols = cs \<rparr>
              \<in> set (hv_calls (HighlightView_load be (Some hid) st)))"
proof -
  let ?p = "HighlightView_project h"
  have rows: "pr_rows ?p = [0]"
    using assms(3,4) by (simp add: project_rows)
  have "safe_int (Min (set [0]) - 5)" and "safe_int (Max (set [0]) + 6)"
    by (simp_all add: safe_int_def)
  from project_window [OF rows _ this] have win: "pr_rowFrom ?p = Fin 0" "pr_rowTo ?p = Fin 6"
    by simp_all
  from rows have fits: "\<not> Suc (engine_extra_args be) < length (pr_rows ?p)"
    by simp
  have "\<exists>cs. CallGetSlice \<lparr> req_table = hl_table_id h, req_offset = Fin 0,
                            req_limit = Fin 6, req_cols = cs \<rparr>
              \<in> set (hv_calls (HighlightView_load be (Some hid) st))"
    using assms(1,2) win fits
    by (auto simp: HighlightView_load_def Let_def getSlice_request_def Math_max_pair_Fin
        double_sub_safe safe_int_def split: sum.splits)
  with rows win show ?thesis by simp
qed

theorem missing_rows_default_witness:
  "first_rows no_rows_payload = None \<and> hl_rows no_rows_payload = None
   \<and> pr_rows (HighlightView_project no_rows_payload) = [0]
   \<and> pr_rowFrom (HighlightView_project no_rows_payload) = Fin 0
   \<and> pr_rowTo (HighlightView_project no_rows_payload) = Fin 6"
proof -
  let ?be = "highlight_backend no_rows_payload no_body_rows"
  have h1: "''h1'' \<noteq> []" by simp
  have h2: "be_getHighlight ?be ''h1'' = Inr no_rows_payload"
    by (simp add: highlight_backend_def)
  have h3: "first_rows no_rows_payload = None" and h4: "hl_rows no_rows_payload = None"
    by (simp_all add: first_rows_def no_rows_payload_def)
  from missing_rows_default [OF h1 h2 h3 h4] h3 h4 show ?thesis by simp
qed

text \<open>
  Claim C10. For every payload with more than one evidence entry, the projection is that
  of the payload with the first entry alone: the entries after the first are ignored. Its
  rows are those of the first entry's range; when the first entry supplies none, the
  top-level rows; when those are missing too, \<open>[0]\<close>. The columns follow the same chain,
  ending in no columns.
\<close>

theorem first_evidence_only:
  "HighlightView_project (h\<lparr> hl_evidence := Some (e # rest) \<rparr>)
     = HighlightView_project (h\<lparr> hl_evidence := Some [e] \<rparr>)
   \<and> pr_rows (HighlightView_project (h\<lparr> hl_evidence := Some (e # rest) \<rparr>)) =
       (case (case ev_range e of None \<Rightarrow> None | Some g \<Rightarrow> range_rows g) of
          Some rs \<Rightarrow> rs
        | None \<Rightarrow> (case hl_rows h of Some rs \<Rightarrow> rs | None \<Rightarrow> [0]))
   \<and> pr_cols (HighlightView_project (h\<lparr> hl_evidence := Some (e # rest) \<rparr>)) =
       (case (case ev_range e of None \<Rightarrow> None | Some g \<Rightarrow> range_cols g) of
          Some cs \<Rightarrow> cs
        | None \<Rightarrow> (case hl_cols h of Some cs \<Rightarrow> cs | None \<Rightarrow> []))"
  by (simp add: HighlightView_project_def Let_def split: option.splits)

text \<open>
  Two entries, rows \<open>[7]\<close> and \<open>[900]\<close>, and top-level rows \<open>[55]\<close>: the projected rows are
  \<open>[7]\<close>.
\<close>

theorem first_evidence_only_witness:
  "pr_rows (HighlightView_project two_entries_payload) = [7]
   \<and> pr_cols (HighlightView_project two_entries_payload) = [''amount'']"
  using first_evidence_only
    [where h = two_entries_payload
       and e = "\<lparr> ev_range = Some \<lparr> range_rows = Some [7], range_cols = Some [''amount''] \<rparr> \<rparr>"
       and rest = "[\<lparr> ev_range = Some \<lparr> range_rows = Some [900], range_cols = Some [''city''] \<rparr> \<rparr>]",
     THEN conjunct2]
  by (simp add: two_entries_payload_def)

section \<open>Properties of the table component\<close>









text \<open>
  The page hands every slice that comes back to the table, whatever its number of rows,
  and shows no error for it.
\<close>

lemma HighlightView_load_renders:
  assumes "hid \<noteq> []" and "be_getHighlight be hid = Inr h"
      and "length (pr_rows (HighlightView_project h)) \<le> Suc (engine_extra_args be)"
      and "be_fetch_slice be
             (getSlice_request (hl_table_id h) (pr_rowFrom (HighlightView_project h))
                (pr_rowTo (HighlightView_project h))
                (if pr_cols (HighlightView_project h) \<noteq> []
                 then Some (pr_cols (HighlightView_project h)) else None))
           = Inr body"
  shows "hv_err (HighlightView_load be (Some hid) hv_initial) = None
       \<and> HighlightView_table (HighlightView_load be (Some hid) hv_initial) =
           Some (DataTable (body_columns body)
                   (map unwrap_row (case body_rows body of None \<Rightarrow> [] | Some rs \<Rightarrow> rs))
                   (Some \<lparr> hi_rows = pr_rows (HighlightView_project h),
                           hi_cols = pr_cols (HighlightView_project h) \<rparr>)
                   (Some (pr_rowFrom (HighlightView_project h))))"
  using assms
  by (simp add: HighlightView_load_def HighlightView_table_def hv_initial_def getSlice_def Let_def
      slice.defs highlight_slice.defs split: sum.splits)

text \<open>
  The page on the citation of row 42 against a table of 43 rows: the window is
  \<open>[37, 48)\<close>, six rows come back, no error is shown, and the rendered rows are 37 to 42
  with only row 42 highlighted.
\<close>

lemma row_42_scenario:
  "hv_err (HighlightView_load
       (highlight_backend row_42_payload \<lparr> body_columns = [''amount''], body_rows = Some (map Plain six_rows) \<rparr>)
       (Some ''h1'') hv_initial) = None
   \<and> map_option (\<lambda>tv. map (\<lambda>tr. (tr_row_index tr, tr_index_hl tr)) (tv_body tv))
       (HighlightView_table (HighlightView_load
          (highlight_backend row_42_payload \<lparr> body_columns = [''amount''], body_rows = Some (map Plain six_rows) \<rparr>)
          (Some ''h1'') hv_initial))
     = Some [(Fin 37, False), (Fin 38, False), (Fin 39, False), (Fin 40, False), (Fin 41, False),
             (Fin 42, True)]
   \<and> hv_calls (HighlightView_load
       (highlight_backend row_42_payload \<lparr> body_columns = [''amount''], body_rows = Some (map Plain six_rows) \<rparr>)
       (Some ''h1'') hv_initial)
     = [CallGetHighlight ''h1'',
        CallGetSlice \<lparr> req_table = ''t1'', req_offset = Fin 37, req_limit = Fin 11,
                       req_cols = Some ''amount'' \<rparr>,
        CallListTables]"
  by (simp add: HighlightView_load_def HighlightView_table_def HighlightView_project_def
      highlight_backend_def row_42_payload_def six_rows_def hv_initial_def getSlice_def
      getSlice_request_def Math_max_def Math_min_def js_sub_def double_sub_def to_double_safe
      safe_int_def DataTable_def Let_def slice.defs highlight_slice.defs)

section \<open>Properties of the upload page\<close>

text \<open>A poll that goes on costs one unit of fuel, one fetch and one wait.\<close>

lemma poll_goes_on:
  assumes "goes_on (be_getJob be jobId k)"
  shows "\<exists>st. poll (Suc fuel) be jobId k s =
           poll fuel be jobId (Suc k)
             (s\<lparr> up_status := st, up_calls := up_calls s @ [CallGetJob jobId, Sleep 500] \<rparr>)"
proof (cases "be_getJob be jobId k")
  case (Inl e)
  with assms show ?thesis by simp
next
  case (Inr j)
  with assms have "\<not> succeeded j" and "\<not> failed j" by simp_all
  with Inr have "poll (Suc fuel) be jobId k s =
      poll fuel be jobId (Suc k)
        (s\<lparr> up_status := Some (Progress
               (case job_message j of None \<Rightarrow> [] | Some m \<Rightarrow> if m \<noteq> [] then m @ '' '' else [])
               (job_status j)
               (case job_progress j of None \<Rightarrow> 0 | Some p \<Rightarrow> p)),
            up_calls := up_calls s @ [CallGetJob jobId, Sleep 500] \<rparr>)"
    by (simp add: succeeded_def failed_def Let_def)
  then show ?thesis by (rule exI)
qed

text \<open>
  \<open>n\<close> polls that go on, from poll \<open>k\<close>: the loop arrives at poll \<open>k + n\<close> having changed
  only the status line and the log, which grew by \<open>n\<close> job-status fetches and by no slice
  fetch or table listing.
\<close>

lemma poll_skip:
  assumes "\<forall>i<n. goes_on (be_getJob be jobId (k + i))"
  shows "\<exists>st cs. poll (n + fuel) be jobId k s =
             poll fuel be jobId (k + n) (s\<lparr> up_status := st, up_calls := up_calls s @ cs \<rparr>)
           \<and> filter is_getJob cs = replicate n (CallGetJob jobId)
           \<and> filter is_getSlice cs = []
           \<and> filter is_listTables cs = []"
  using assms
proof (induction n arbitrary: k s)
  case 0
  have "poll fuel be jobId k s =
          poll fuel be jobId k (s\<lparr> up_status := up_status s, up_calls := up_calls s @ [] \<rparr>)"
    by simp
  then show ?case
    by (metis add_0 add_0_right filter.simps(1) replicate_0)
next
  case (Suc n)
  from Suc.prems have first: "goes_on (be_getJob be jobId k)"
    by (metis add_0_right zero_less_Suc)
  from Suc.prems have rest: "\<forall>i<n. goes_on (be_getJob be jobId (Suc k + i))"
    by (metis Suc_less_eq add_Suc_right add_Suc)
  from poll_goes_on [OF first] obtain st0 where
    step: "poll (Suc (n + fuel)) be jobId k s =
             poll (n + fuel) be jobId (Suc k)
               (s\<lparr> up_status := st0, up_calls := up_calls s @ [CallGetJob jobId, Sleep 500] \<rparr>)"
    by blast
  let ?s1 = "s\<lparr> up_status := st0, up_calls := up_calls s @ [CallGetJob jobId, Sleep 500] \<rparr>"
  from Suc.IH [OF rest, of ?s1] obtain st cs where
    ih: "poll (n + fuel) be jobId (Suc k) ?s1 =
           poll fuel be jobId (Suc k + n) (?s1\<lparr> up_status := st, up_calls := up_calls ?s1 @ cs \<rparr>)"
    and cs: "filter is_getJob cs = replicate n (CallGetJob jobId)"
            "filter is_getSlice cs = []" "filter is_listTables cs = []"
    by blast
  let ?cs = "[CallGetJob jobId, Sleep 500] @ cs"
  have "poll (Suc n + fuel) be jobId k s =
          poll fuel be jobId (k + Suc n) (s\<lparr> up_status := st, up_calls := up_calls s @ ?cs \<rparr>)"
    using step ih by simp
  moreover have "filter is_getJob ?cs = replicate (Suc n) (CallGetJob jobId)"
    using cs by simp
  moreover have "filter is_getSlice ?cs = []" "filter is_listTables ?cs = []"
    using cs by (simp_all add: is_listTables_def)
  ultimately show ?case by blast
qed

lemma poll_run:
  assumes "\<forall>i<n. goes_on (be_getJob be jobId i)" and "n < fuel"
  shows "\<exists>st cs. poll fuel be jobId 0 s =
             poll (Suc (fuel - Suc n)) be jobId n (s\<lparr> up_status := st, up_calls := up_calls s @ cs \<rparr>)
           \<and> filter is_getJob cs = replicate n (CallGetJob jobId)
           \<and> filter is_getSlice cs = []
           \<and> filter is_listTables cs = []"
proof -
  from assms(1) have "\<forall>i<n. goes_on (be_getJob be jobId (0 + i))" by simp
  from poll_skip [OF this, of "Suc (fuel - Suc n)" s] assms(2) show ?thesis by simp
qed

text \<open>The three ways out of the loop.\<close>

lemma poll_throw:
  assumes "be_getJob be jobId k = Inl e"
  shows "poll (Suc fuel) be jobId k s =
           Some (Some e, s\<lparr> up_calls := up_calls s @ [CallGetJob jobId] \<rparr>)"
  using assms by simp

lemma poll_failed:
  assumes "be_getJob be jobId k = Inr j" and "failed j"
  shows "poll (Suc fuel) be jobId k s =
           Some (Some (Exn ''Error''
                   (case job_message j of
                      None \<Rightarrow> ''Upload failed.''
                    | Some m \<Rightarrow> if m \<noteq> [] then m else ''Upload failed.'')),
                 s\<lparr> up_calls := up_calls s @ [CallGetJob jobId] \<rparr>)"
  using assms by (simp add: failed_def)

lemma poll_succeeded:
  assumes "be_getJob be jobId k = Inr j" and "succeeded j"
  shows "poll (Suc fuel) be jobId k s =
           (case be_listTables be of
              Inl e \<Rightarrow>
                Some (Some e, s\<lparr> up_status := None,
                                 up_calls := up_calls s @ [CallGetJob jobId, CallListTables] \<rparr>)
            | Inr ts \<Rightarrow>
                (let s2 = s\<lparr> up_status := None,
                              up_calls := up_calls s @ [CallGetJob jobId, CallListTables],
                              up_tables := ts \<rparr>;
                     s3 = (case job_table_id j of
                             None \<Rightarrow> s2
                           | Some tid \<Rightarrow> if tid \<noteq> [] then loadPreview be tid s2 else s2)
                 in Some (None, s3\<lparr> up_toast := Some ''File uploaded successfully'',
                                     up_file := None, up_name := ''Uploaded Table'' \<rparr>)))"
  using assms by (simp add: succeeded_def refresh_def Let_def split: sum.splits option.splits)

text \<open>\<^verbatim>\<open>loadPreview\<close> makes one call, the slice fetch for offset 0 and limit 50, all columns.\<close>

lemma loadPreview_calls:
  "up_calls (loadPreview be tid s) =
     up_calls s @ [CallGetSlice \<lparr> req_table = tid, req_offset = Fin 0, req_limit = Fin 50,
                                  req_cols = None \<rparr>]"
  by (simp add: loadPreview_def Let_def getSlice_request_def Math_max_pair_Fin double_sub_safe
      safe_int_def split: sum.splits)

lemma loadPreview_frame:
  "up_err (loadPreview be tid s) = up_err s \<and> up_tables (loadPreview be tid s) = up_tables s
   \<and> up_busy (loadPreview be tid s) = up_busy s"
  by (simp add: loadPreview_def Let_def split: sum.splits)

text \<open>\<^verbatim>\<open>onUpload\<close> on an accepted upload is the polling loop, wrapped in its handlers.\<close>

lemma onUpload_started:
  assumes "job_started be s jobId"
  shows "\<exists>fname. up_file s = Some fname \<and>
     onUpload fuel be s =
       (case poll fuel be jobId 0
               (s\<lparr> up_busy := True, up_err := None, up_status := Some Uploading,
                    up_calls := up_calls s @ [CallUploadTable fname (up_name s)] \<rparr>) of
          None \<Rightarrow> None
        | Some (None, s3) \<Rightarrow> Some (s3\<lparr> up_busy := False \<rparr>)
        | Some (Some e, s3) \<Rightarrow> Some (s3\<lparr> up_err := Some (error_text e), up_busy := False \<rparr>))"
  using assms
  by (auto simp: job_started_def onUpload_def Let_def split: option.splits sum.splits)

text \<open>
  With enough fuel, a run whose first \<open>n\<close> polls go on reaches poll \<open>n\<close>; the calls before
  it are the upload and \<open>n\<close> job-status fetches, with no slice fetch or table listing.
\<close>

lemma onUpload_reaches:
  assumes "job_started be s jobId"
      and "\<forall>i<n. goes_on (be_getJob be jobId i)"
      and "n < fuel"
  shows "\<exists>fname st cs.
           onUpload fuel be s =
             (case poll (Suc (fuel - Suc n)) be jobId n
                     (s\<lparr> up_busy := True, up_err := None, up_status := st,
                          up_calls := up_calls s @ CallUploadTable fname (up_name s) # cs \<rparr>) of
                None \<Rightarrow> None
              | Some (None, s3) \<Rightarrow> Some (s3\<lparr> up_busy := False \<rparr>)
              | Some (Some e, s3) \<Rightarrow> Some (s3\<lparr> up_err := Some (error_text e), up_busy := False \<rparr>))
           \<and> filter is_getJob (CallUploadTable fname (up_name s) # cs) = replicate n (CallGetJob jobId)
           \<and> filter is_getSlice (CallUploadTable fname (up_name s) # cs) = []
           \<and> filter is_listTables (CallUploadTable fname (up_name s) # cs) = []"
proof -
  from onUpload_started [OF assms(1), of fuel] obtain fname where
    up: "onUpload fuel be s =
       (case poll fuel be jobId 0
               (s\<lparr> up_busy := True, up_err := None, up_status := Some Uploading,
                    up_calls := up_calls s @ [CallUploadTable fname (up_name s)] \<rparr>) of
          None \<Rightarrow> None
        | Some (None, s3) \<Rightarrow> Some (s3\<lparr> up_busy := False \<rparr>)
        | Some (Some e, s3) \<Rightarrow> Some (s3\<lparr> up_err := Some (error_text e), up_busy := False \<rparr>))"
    by blast
  let ?s0 = "s\<lparr> up_busy := True, up_err := None, up_status := Some Uploading,
                up_calls := up_calls s @ [CallUploadTable fname (up_name s)] \<rparr>"
  from poll_run [OF assms(2,3), of ?s0] obtain st cs where
    run: "poll fuel be jobId 0 ?s0 =
            poll (Suc (fuel - Suc n)) be jobId n (?s0\<lparr> up_status := st, up_calls := up_calls ?s0 @ cs \<rparr>)"
    and cs: "filter is_getJob cs = replicate n (CallGetJob jobId)"
            "filter is_getSlice cs = []" "filter is_listTables cs = []"
    by blast
  have same: "?s0\<lparr> up_status := st, up_calls := up_calls ?s0 @ cs \<rparr> =
              s\<lparr> up_busy := True, up_err := None, up_status := st,
                 up_calls := up_calls s @ CallUploadTable fname (up_name s) # cs \<rparr>"
    by simp
  have "onUpload fuel be s =
             (case poll (Suc (fuel - Suc n)) be jobId n
                     (s\<lparr> up_busy := True, up_err := None, up_status := st,
                          up_calls := up_calls s @ CallUploadTable fname (up_name s) # cs \<rparr>) of
                None \<Rightarrow> None
              | Some (None, s3) \<Rightarrow> Some (s3\<lparr> up_busy := False \<rparr>)
              | Some (Some e, s3) \<Rightarrow> Some (s3\<lparr> up_err := Some (error_text e), up_busy := False \<rparr>))"
    unfolding up run same ..
  moreover have "filter is_getJob (CallUploadTable fname (up_name s) # cs) = replicate n (CallGetJob jobId)"
    "filter is_getSlice (CallUploadTable fname (up_name s) # cs) = []"
    "filter is_listTables (CallUploadTable fname (up_name s) # cs) = []"
    using cs by (simp_all add: is_listTables_def)
  ultimately show ?thesis by blast
qed

text \<open>
  Claim C4. In a polling run, let poll \<open>n\<close> be the first to observe a terminal status
  (\<open>done\<close> or \<open>indexing\<close>, or \<open>error\<close>), the polls before it going on. Then, with any
  fuel above \<open>n\<close>, the run ends, and its calls are: a prefix holding the \<open>n\<close> earlier
  job-status fetches, the fetch that observed the terminal status, and a rest that holds
  no job-status fetch. The loop is never entered again after a terminal observation.
\<close>

theorem no_poll_after_terminal:
  assumes "job_started be s jobId"
      and "\<forall>i<n. goes_on (be_getJob be jobId i)"
      and "be_getJob be jobId n = Inr j" and "succeeded j \<or> failed j"
      and "n < fuel"
  shows "\<exists>s' pre post. onUpload fuel be s = Some s'
           \<and> up_calls s' = up_calls s @ pre @ CallGetJob jobId # post
           \<and> filter is_getJob pre = replicate n (CallGetJob jobId)
           \<and> filter is_getJob post = []"
proof -
  from onUpload_reaches [OF assms(1,2,5)] obtain fname st cs where
    up: "onUpload fuel be s =
             (case poll (Suc (fuel - Suc n)) be jobId n
                     (s\<lparr> up_busy := True, up_err := None, up_status := st,
                          up_calls := up_calls s @ CallUploadTable fname (up_name s) # cs \<rparr>) of
                None \<Rightarrow> None
              | Some (None, s3) \<Rightarrow> Some (s3\<lparr> up_busy := False \<rparr>)
              | Some (Some e, s3) \<Rightarrow> Some (s3\<lparr> up_err := Some (error_text e), up_busy := False \<rparr>))"
    and pre: "filter is_getJob (CallUploadTable fname (up_name s) # cs) = replicate n (CallGetJob jobId)"
    by blast
  let ?pre = "CallUploadTable fname (up_name s) # cs"
  let ?s1 = "s\<lparr> up_busy := True, up_err := None, up_status := st, up_calls := up_calls s @ ?pre \<rparr>"
  from assms(4) have "\<exists>s' post. onUpload fuel be s = Some s'
           \<and> up_calls s' = up_calls s @ ?pre @ CallGetJob jobId # post
           \<and> filter is_getJob post = []"
  proof
    assume "succeeded j"
    from poll_succeeded [OF assms(3) this, of "fuel - Suc n" ?s1] show ?thesis
      unfolding up
      by (cases "be_listTables be"; cases "job_table_id j")
         (simp_all add: Let_def loadPreview_calls del: poll.simps)
  next
    assume "failed j"
    from poll_failed [OF assms(3) this, of "fuel - Suc n" ?s1] show ?thesis
      unfolding up by (simp del: poll.simps)
  qed
  with pre show ?thesis by blast
qed

text \<open>
  Polls \<open>processing\<close> (30%), \<open>processing\<close> (70%), \<open>done\<close>: three job-status fetches are
  made, and no fourth.
\<close>

theorem no_poll_after_terminal_witness:
  "job_started (upload_backend three_polls (Inr [])) (up_initial ''a.csv'') ''j1''
   \<and> goes_on (be_getJob (upload_backend three_polls (Inr [])) ''j1'' 0)
   \<and> goes_on (be_getJob (upload_backend three_polls (Inr [])) ''j1'' 1)
   \<and> be_getJob (upload_backend three_polls (Inr [])) ''j1'' 2 = Inr (job_done ''t9'')
   \<and> succeeded (job_done ''t9'')
   \<and> map_option (filter is_getJob \<circ> up_calls)
        (onUpload 7 (upload_backend three_polls (Inr [])) (up_initial ''a.csv''))
       = Some [CallGetJob ''j1'', CallGetJob ''j1'', CallGetJob ''j1'']"
proof -
  let ?be = "upload_backend three_polls (Inr [])"
  have h1: "job_started ?be (up_initial ''a.csv'') ''j1''"
    by (simp add: job_started_def upload_backend_def up_initial_def)
  have h2: "\<forall>i<2. goes_on (be_getJob ?be ''j1'' i)"
    by (simp add: upload_backend_def three_polls_def job_processing_def succeeded_def failed_def
        numeral_2_eq_2 All_less_Suc)
  have h3: "be_getJob ?be ''j1'' 2 = Inr (job_done ''t9'')"
    by (simp add: upload_backend_def three_polls_def)
  have h4: "succeeded (job_done ''t9'') \<or> failed (job_done ''t9'')"
    by (simp add: succeeded_def job_done_def)
  from no_poll_after_terminal [OF h1 h2 h3 h4, of 7] obtain s' pre post where
    "onUpload 7 ?be (up_initial ''a.csv'') = Some s'"
    "up_calls s' = up_calls (up_initial ''a.csv'') @ pre @ CallGetJob ''j1'' # post"
    "filter is_getJob pre = replicate 2 (CallGetJob ''j1'')" "filter is_getJob post = []"
    by auto
  then have "map_option (filter is_getJob \<circ> up_calls) (onUpload 7 ?be (up_initial ''a.csv''))
       = Some [CallGetJob ''j1'', CallGetJob ''j1'', CallGetJob ''j1'']"
    by (simp add: up_initial_def numeral_2_eq_2)
  with h1 h2 h3 h4 show ?thesis
    by (simp add: succeeded_def job_done_def numeral_2_eq_2 All_less_Suc)
qed

text \<open>
  Claim C5, as stated, fails. The first job-status fetch throws and the second would
  have found the job done; the run makes the one fetch, never the second, and shows the
  text of the failure at once. There is no retry and no bound to choose.
\<close>

theorem transient_error_counterexample:
  "be_getJob (upload_backend fetch_fails_once (Inr [])) ''j1'' 1 = Inr (job_done ''t9'')
   \<and> map_option up_err (onUpload 5 (upload_backend fetch_fails_once (Inr [])) (up_initial ''a.csv''))
       = Some (Some ''Failed to fetch'')
   \<and> map_option up_calls (onUpload 5 (upload_backend fetch_fails_once (Inr [])) (up_initial ''a.csv''))
       = Some [CallUploadTable ''a.csv'' ''a.csv'', CallGetJob ''j1'']"
proof -
  note first_poll = poll.simps(2) [of 4, simplified]
  show ?thesis
    by (simp add: onUpload_def upload_backend_def fetch_fails_once_def up_initial_def job_done_def
        error_text_def first_poll)
qed

text \<open>
  Claim C5, amended. A job-status fetch that throws during polling is not retried: with
  the polls before it going on, the run ends at that fetch, which is its last call, and
  the text of the failure is shown as the error, with \<open>busy\<close> cleared.
\<close>

theorem fetch_failure_not_retried:
  assumes "job_started be s jobId"
      and "\<forall>i<n. goes_on (be_getJob be jobId i)"
      and "be_getJob be jobId n = Inl e"
      and "n < fuel"
  shows "\<exists>s' pre. onUpload fuel be s = Some s'
           \<and> up_err s' = Some (error_text e) \<and> \<not> up_busy s'
           \<and> up_calls s' = up_calls s @ pre @ [CallGetJob jobId]
           \<and> filter is_getJob pre = replicate n (CallGetJob jobId)"
proof -
  from onUpload_reaches [OF assms(1,2,4)] obtain fname st cs where
    up: "onUpload fuel be s =
             (case poll (Suc (fuel - Suc n)) be jobId n
                     (s\<lparr> up_busy := True, up_err := None, up_status := st,
                          up_calls := up_calls s @ CallUploadTable fname (up_name s) # cs \<rparr>) of
                None \<Rightarrow> None
              | Some (None, s3) \<Rightarrow> Some (s3\<lparr> up_busy := False \<rparr>)
              | Some (Some e, s3) \<Rightarrow> Some (s3\<lparr> up_err := Some (error_text e), up_busy := False \<rparr>))"
    and pre: "filter is_getJob (CallUploadTable fname (up_name s) # cs) = replicate n (CallGetJob jobId)"
    by blast
  let ?pre = "CallUploadTable fname (up_name s) # cs"
  let ?s1 = "s\<lparr> up_busy := True, up_err := None, up_status := st, up_calls := up_calls s @ ?pre \<rparr>"
  from poll_throw [OF assms(3), of "fuel - Suc n" ?s1]
  have "\<exists>s'. onUpload fuel be s = Some s'
           \<and> up_err s' = Some (error_text e) \<and> \<not> up_busy s'
           \<and> up_calls s' = up_calls s @ ?pre @ [CallGetJob jobId]"
    unfolding up by (simp del: poll.simps)
  with pre show ?thesis by blast
qed

theorem fetch_failure_not_retried_witness:
  "job_started (upload_backend fetch_fails_once (Inr [])) (up_initial ''a.csv'') ''j1''
   \<and> be_getJob (upload_backend fetch_fails_once (Inr [])) ''j1'' 0 = Inl (Exn ''TypeError'' ''Failed to fetch'')
   \<and> map_option up_err (onUpload 1 (upload_backend fetch_fails_once (Inr [])) (up_initial ''a.csv''))
       = Some (Some ''Failed to fetch'')
   \<and> map_option (filter is_getJob \<circ> up_calls)
        (onUpload 1 (upload_backend fetch_fails_once (Inr [])) (up_initial ''a.csv''))
       = Some [CallGetJob ''j1'']"
proof -
  let ?be = "upload_backend fetch_fails_once (Inr [])"
  have h1: "job_started ?be (up_initial ''a.csv'') ''j1''"
    by (simp add: job_started_def upload_backend_def up_initial_def)
  have h2: "\<forall>i<0. goes_on (be_getJob ?be ''j1'' i)"
    by simp
  have h3: "be_getJob ?be ''j1'' 0 = Inl (Exn ''TypeError'' ''Failed to fetch'')"
    by (simp add: upload_backend_def fetch_fails_once_def)
  from fetch_failure_not_retried [OF h1 h2 h3, of 1] obtain s' pre where
    "onUpload 1 ?be (up_initial ''a.csv'') = Some s'"
    "up_err s' = Some (error_text (Exn ''TypeError'' ''Failed to fetch''))"
    "up_calls s' = up_calls (up_initial ''a.csv'') @ pre @ [CallGetJob ''j1'']"
    "filter is_getJob pre = replicate 0 (CallGetJob ''j1'')"
    by auto
  then have "map_option up_err (onUpload 1 ?be (up_initial ''a.csv'')) = Some (Some ''Failed to fetch'')"
    and "map_option (filter is_getJob \<circ> up_calls) (onUpload 1 ?be (up_initial ''a.csv''))
           = Some [CallGetJob ''j1'']"
    by (simp_all add: up_initial_def error_text_def)
  with h1 h3 show ?thesis by simp
qed

text \<open>
  Claim C7. For every job observed with status \<open>error\<close>, the run ends with an error
  text that is not empty: the default \<open>Upload failed.\<close> when the job carries no message,
  and exactly the job's message when it carries one (a message that is the empty string
  counts as none and gives the default).
\<close>

theorem job_error_message_surfaced:
  assumes "job_started be s jobId"
      and "\<forall>i<n. goes_on (be_getJob be jobId i)"
      and "be_getJob be jobId n = Inr j" and "failed j"
      and "n < fuel"
  shows "\<exists>s'. onUpload fuel be s = Some s'
           \<and> (\<exists>shown. up_err s' = Some shown \<and> shown \<noteq> [])
           \<and> (job_message j = None \<longrightarrow> up_err s' = Some ''Upload failed.'')
           \<and> (\<forall>m. job_message j = Some m \<and> m \<noteq> [] \<longrightarrow> up_err s' = Some m)
           \<and> (job_message j = Some [] \<longrightarrow> up_err s' = Some ''Upload failed.'')"
proof -
  from onUpload_reaches [OF assms(1,2,5)] obtain fname st cs where
    up: "onUpload fuel be s =
             (case poll (Suc (fuel - Suc n)) be jobId n
                     (s\<lparr> up_busy := True, up_err := None, up_status := st,
                          up_calls := up_calls s @ CallUploadTable fname (up_name s) # cs \<rparr>) of
                None \<Rightarrow> None
              | Some (None, s3) \<Rightarrow> Some (s3\<lparr> up_busy := False \<rparr>)
              | Some (Some e, s3) \<Rightarrow> Some (s3\<lparr> up_err := Some (error_text e), up_busy := False \<rparr>))"
    by blast
  let ?s1 = "s\<lparr> up_busy := True, up_err := None, up_status := st,
                up_calls := up_calls s @ CallUploadTable fname (up_name s) # cs \<rparr>"
  from poll_failed [OF assms(3,4), of "fuel - Suc n" ?s1] show ?thesis
    unfolding up by (cases "job_message j") (simp_all add: error_text_def del: poll.simps)
qed

text \<open>A job that failed with the message \<open>bad header row\<close>: exactly that is shown.\<close>

theorem job_error_message_surfaced_witness:
  "job_started (upload_backend [Inr (job_error (Some ''bad header row''))] (Inr [])) (up_initial ''a.csv'') ''j1''
   \<and> failed (job_error (Some ''bad header row''))
   \<and> map_option up_err
        (onUpload 1 (upload_backend [Inr (job_error (Some ''bad header row''))] (Inr [])) (up_initial ''a.csv''))
       = Some (Some ''bad header row'')"
proof -
  let ?be = "upload_backend [Inr (job_error (Some ''bad header row''))] (Inr [])"
  have h1: "job_started ?be (up_initial ''a.csv'') ''j1''"
    by (simp add: job_started_def upload_backend_def up_initial_def)
  have h2: "\<forall>i<0. goes_on (be_getJob ?be ''j1'' i)"
    by simp
  have h3: "be_getJob ?be ''j1'' 0 = Inr (job_error (Some ''bad header row''))"
    by (simp add: upload_backend_def)
  have h4: "failed (job_error (Some ''bad header row''))"
    by (simp add: failed_def job_error_def)
  from job_error_message_surfaced [OF h1 h2 h3 h4, of 1] obtain s' where
    "onUpload 1 ?be (up_initial ''a.csv'') = Some s'"
    "\<forall>m. job_message (job_error (Some ''bad header row'')) = Some m \<and> m \<noteq> [] \<longrightarrow> up_err s' = Some m"
    by auto
  then have "map_option up_err (onUpload 1 ?be (up_initial ''a.csv'')) = Some (Some ''bad header row'')"
    by (simp add: job_error_def)
  with h1 h4 show ?thesis by simp
qed

text \<open>
  Claim C8, as stated, fails. The job is done and carries the table id \<open>t9\<close>, but the
  refresh of the table list throws: the run ends there, with the text of that failure
  as the error, and no preview slice is fetched.
\<close>

theorem refresh_fails_counterexample:
  "succeeded (job_done ''t9'') \<and> job_table_id (job_done ''t9'') = Some ''t9''
   \<and> map_option up_calls
        (onUpload 1 (upload_backend done_t9 (Inl (Exn ''Error'' ''Service Unavailable''))) (up_initial ''a.csv''))
       = Some [CallUploadTable ''a.csv'' ''a.csv'', CallGetJob ''j1'', CallListTables]
   \<and> map_option up_err
        (onUpload 1 (upload_backend done_t9 (Inl (Exn ''Error'' ''Service Unavailable''))) (up_initial ''a.csv''))
       = Some (Some ''Service Unavailable'')"
  by (simp add: onUpload_def upload_backend_def done_t9_def up_initial_def job_done_def succeeded_def
      refresh_def error_text_def)

text \<open>
  Claim C8, amended. For every upload run whose polling reaches a success status, the
  table list is requested once, right after the last poll. When that request succeeds,
  the tables are stored, no error is shown, and, if the observation carries a table id
  (a non-empty string), exactly one slice fetch follows, for that table, offset 0, limit
  50 and all columns; without a table id none follows. When the request throws, its text
  is shown as the error and no slice is fetched.
\<close>

theorem success_refresh_then_preview:
  assumes "job_started be s jobId"
      and "\<forall>i<n. goes_on (be_getJob be jobId i)"
      and "be_getJob be jobId n = Inr j" and "succeeded j"
      and "n < fuel"
  shows "\<exists>s' pre. onUpload fuel be s = Some s'
           \<and> filter is_getJob pre = replicate n (CallGetJob jobId)
           \<and> filter is_getSlice pre = [] \<and> filter is_listTables pre = []
           \<and> (case be_listTables be of
                 Inl e \<Rightarrow>
                   up_calls s' = up_calls s @ pre @ [CallGetJob jobId, CallListTables]
                   \<and> up_err s' = Some (error_text e)
               | Inr ts \<Rightarrow>
                   up_tables s' = ts \<and> up_err s' = None
                   \<and> up_calls s' = up_calls s @ pre @ [CallGetJob jobId, CallListTables] @
                       (case job_table_id j of
                          None \<Rightarrow> []
                        | Some tid \<Rightarrow>
                            if tid \<noteq> []
                            then [CallGetSlice \<lparr> req_table = tid, req_offset = Fin 0,
                                                 req_limit = Fin 50, req_cols = None \<rparr>]
                            else []))"
proof -
  from onUpload_reaches [OF assms(1,2,5)] obtain fname st cs where
    up: "onUpload fuel be s =
             (case poll (Suc (fuel - Suc n)) be jobId n
                     (s\<lparr> up_busy := True, up_err := None, up_status := st,
                          up_calls := up_calls s @ CallUploadTable fname (up_name s) # cs \<rparr>) of
                None \<Rightarrow> None
              | Some (None, s3) \<Rightarrow> Some (s3\<lparr> up_busy := False \<rparr>)
              | Some (Some e, s3) \<Rightarrow> Some (s3\<lparr> up_err := Some (error_text e), up_busy := False \<rparr>))"
    and pre: "filter is_getJob (CallUploadTable fname (up_name s) # cs) = replicate n (CallGetJob jobId)"
      "filter is_getSlice (CallUploadTable fname (up_name s) # cs) = []"
      "filter is_listTables (CallUploadTable fname (up_name s) # cs) = []"
    by blast
  let ?pre = "CallUploadTable fname (up_name s) # cs"
  let ?s1 = "s\<lparr> up_busy := True, up_err := None, up_status := st, up_calls := up_calls s @ ?pre \<rparr>"
  from poll_succeeded [OF assms(3,4), of "fuel - Suc n" ?s1]
  have "\<exists>s'. onUpload fuel be s = Some s'
           \<and> (case be_listTables be of
                 Inl e \<Rightarrow>
                   up_calls s' = up_calls s @ ?pre @ [CallGetJob jobId, CallListTables]
                   \<and> up_err s' = Some (error_text e)
               | Inr ts \<Rightarrow>
                   up_tables s' = ts \<and> up_err s' = None
                   \<and> up_calls s' = up_calls s @ ?pre @ [CallGetJob jobId, CallListTables] @
                       (case job_table_id j of
                          None \<Rightarrow> []
                        | Some tid \<Rightarrow>
                            if tid \<noteq> []
                            then [CallGetSlice \<lparr> req_table = tid, req_offset = Fin 0,
                                                 req_limit = Fin 50, req_cols = None \<rparr>]
                            else []))"
    unfolding up
    by (cases "be_listTables be"; cases "job_table_id j")
       (simp_all add: Let_def loadPreview_calls loadPreview_frame del: poll.simps)
  with pre show ?thesis by blast
qed

text \<open>
  Polls \<open>processing\<close> (30%), \<open>processing\<close> (70%), \<open>done\<close> with table \<open>t9\<close>: one table
  listing, then one slice fetch, for \<open>t9\<close>, offset 0 and limit 50.
\<close>

theorem success_refresh_then_preview_witness:
  "job_started (upload_backend three_polls (Inr [])) (up_initial ''a.csv'') ''j1''
   \<and> goes_on (be_getJob (upload_backend three_polls (Inr [])) ''j1'' 0)
   \<and> goes_on (be_getJob (upload_backend three_polls (Inr [])) ''j1'' 1)
   \<and> be_getJob (upload_backend three_polls (Inr [])) ''j1'' 2 = Inr (job_done ''t9'')
   \<and> succeeded (job_done ''t9'')
   \<and> map_option (filter is_getSlice \<circ> up_calls)
        (onUpload 3 (upload_backend three_polls (Inr [])) (up_initial ''a.csv''))
       = Some [CallGetSlice \<lparr> req_table = ''t9'', req_offset = Fin 0, req_limit = Fin 50, req_cols = None \<rparr>]
   \<and> map_option (filter is_listTables \<circ> up_calls)
        (onUpload 3 (upload_backend three_polls (Inr [])) (up_initial ''a.csv''))
       = Some [CallListTables]"
proof -
  let ?be = "upload_backend three_polls (Inr [])"
  have h1: "job_started ?be (up_initial ''a.csv'') ''j1''"
    by (simp add: job_started_def upload_backend_def up_initial_def)
  have h2: "\<forall>i<2. goes_on (be_getJob ?be ''j1'' i)"
    by (simp add: upload_backend_def three_polls_def job_processing_def succeeded_def failed_def
        numeral_2_eq_2 All_less_Suc)
  have h3: "be_getJob ?be ''j1'' 2 = Inr (job_done ''t9'')"
    by (simp add: upload_backend_def three_polls_def)
  have h4: "succeeded (job_done ''t9'')"
    by (simp add: succeeded_def job_done_def)
  have tables: "be_listTables ?be = Inr []"
    by (simp add: upload_backend_def)
  from success_refresh_then_preview [OF h1 h2 h3 h4, of 3] obtain s' pre where
    "onUpload 3 ?be (up_initial ''a.csv'') = Some s'"
    "filter is_getSlice pre = []" "filter is_listTables pre = []"
    "up_calls s' = up_calls (up_initial ''a.csv'') @ pre @ [CallGetJob ''j1'', CallListTables] @
       [CallGetSlice \<lparr> req_table = ''t9'', req_offset = Fin 0, req_limit = Fin 50, req_cols = None \<rparr>]"
    by (auto simp: tables job_done_def)
  then have "map_option (filter is_getSlice \<circ> up_calls) (onUpload 3 ?be (up_initial ''a.csv''))
       = Some [CallGetSlice \<lparr> req_table = ''t9'', req_offset = Fin 0, req_limit = Fin 50, req_cols = None \<rparr>]"
    and "map_option (filter is_listTables \<circ> up_calls) (onUpload 3 ?be (up_initial ''a.csv''))
       = Some [CallListTables]"
    by (simp_all add: up_initial_def is_listTables_def)
  with h1 h2 h3 h4 show ?thesis
    by (simp add: numeral_2_eq_2 All_less_Suc)
qed

end
